theory Spec2Isabelle
  imports Main
begin

section \<open>The Go autobuilder: version resolution, strategy selection, relocation\<close>

text \<open>
  This theory embeds \<^verbatim>\<open>go/extractor/cli/go-autobuilder/go-autobuilder.go\<close>.
  Go strings are byte sequences and are modelled as \<^typ>\<open>string\<close> (lists of
  \<^typ>\<open>char\<close>); Go's \<^verbatim>\<open>int\<close> results of comparisons are \<^typ>\<open>int\<close>.
  A call of \<^verbatim>\<open>log.Fatalf\<close> ends the process and is a value of a sum type.
\<close>

subsection \<open>Bytes and strings\<close>

text \<open>The byte comparisons \<^verbatim>\<open>'0' <= c && c <= '9'\<close> and friends.\<close>

definition byte :: "char \<Rightarrow> nat" where
  "byte c = of_char c"

definition isDigit :: "char \<Rightarrow> bool" where
  "isDigit c = (byte (CHR ''0'') \<le> byte c \<and> byte c \<le> byte (CHR ''9''))"

text \<open>Go's \<^verbatim>\<open>x < y\<close> on strings: lexicographic on the bytes.\<close>

fun strLess :: "string \<Rightarrow> string \<Rightarrow> bool" where
  "strLess [] [] = False"
| "strLess [] (y # ys) = True"
| "strLess (x # xs) [] = False"
| "strLess (x # xs) (y # ys) =
     (if byte x < byte y then True
      else if byte y < byte x then False
      else strLess xs ys)"

subsection \<open>The library \<^verbatim>\<open>golang.org/x/mod/semver\<close>\<close>

text \<open>
  The autobuilder compares versions with \<^verbatim>\<open>semver.Compare\<close>,
  \<^verbatim>\<open>semver.MajorMinor\<close> and \<^verbatim>\<open>semver.IsValid\<close> of the module
  \<^verbatim>\<open>golang.org/x/mod\<close>. The definitions below follow that package function by
  function (\<^verbatim>\<open>parse\<close>, \<^verbatim>\<open>parseInt\<close>, \<^verbatim>\<open>parsePrerelease\<close>,
  \<^verbatim>\<open>parseBuild\<close>, \<^verbatim>\<open>compareInt\<close>, \<^verbatim>\<open>comparePrerelease\<close>).
\<close>

record parsed =
  major :: string
  minor :: string
  patch :: string
  short :: string
  prerelease :: string
  build :: string

definition emptyParsed :: parsed where
  "emptyParsed =
     \<lparr>major = [], minor = [], patch = [], short = [], prerelease = [], build = []\<rparr>"

text \<open>
  \<^verbatim>\<open>parseInt\<close>: the longest run of digits at the front, refused when it is empty
  or has a leading zero; the result is the run and the rest of the string.
\<close>

definition parseInt :: "string \<Rightarrow> (string \<times> string) option" where
  "parseInt v =
     (case v of
        [] \<Rightarrow> None
      | c # cs \<Rightarrow>
          if \<not> isDigit c then None
          else let t = c # takeWhile isDigit cs; rest = dropWhile isDigit cs
               in if c = CHR ''0'' \<and> length t \<noteq> 1 then None else Some (t, rest))"

definition isIdentChar :: "char \<Rightarrow> bool" where
  "isIdentChar c =
     (byte (CHR ''A'') \<le> byte c \<and> byte c \<le> byte (CHR ''Z'')
      \<or> byte (CHR ''a'') \<le> byte c \<and> byte c \<le> byte (CHR ''z'')
      \<or> byte (CHR ''0'') \<le> byte c \<and> byte c \<le> byte (CHR ''9'')
      \<or> c = CHR ''-'')"

text \<open>\<^verbatim>\<open>isBadNum\<close>: all digits, more than one of them, the first a zero.\<close>

definition isBadNum :: "string \<Rightarrow> bool" where
  "isBadNum v = (dropWhile isDigit v = [] \<and> 1 < length v \<and> hd v = CHR ''0'')"

text \<open>\<^verbatim>\<open>isNum\<close>: all digits (the empty string included).\<close>

definition isNum :: "string \<Rightarrow> bool" where
  "isNum v = (dropWhile isDigit v = [])"

text \<open>
  The scanning loop of \<^verbatim>\<open>parsePrerelease\<close>. \<open>cur\<close> is the identifier being
  read (\<^verbatim>\<open>v[start:i]\<close>), \<open>done\<close> the bytes consumed so far (\<^verbatim>\<open>v[:i]\<close>,
  kept in reverse). The loop stops at a \<^verbatim>\<open>+\<close> or at the end of the string.
\<close>

fun prereleaseLoop :: "string \<Rightarrow> string \<Rightarrow> string \<Rightarrow> (string \<times> string) option" where
  "prereleaseLoop cur done [] =
     (if cur = [] \<or> isBadNum cur then None else Some (rev done, []))"
| "prereleaseLoop cur done (c # cs) =
     (if c = CHR ''+'' then
        (if cur = [] \<or> isBadNum cur then None else Some (rev done, c # cs))
      else if \<not> isIdentChar c \<and> c \<noteq> CHR ''.'' then None
      else if c = CHR ''.'' then
        (if cur = [] \<or> isBadNum cur then None else prereleaseLoop [] (c # done) cs)
      else prereleaseLoop (cur @ [c]) (c # done) cs)"

definition parsePrerelease :: "string \<Rightarrow> (string \<times> string) option" where
  "parsePrerelease v =
     (case v of
        [] \<Rightarrow> None
      | c # cs \<Rightarrow> if c \<noteq> CHR ''-'' then None else prereleaseLoop [] [c] cs)"

text \<open>The loop of \<^verbatim>\<open>parseBuild\<close>: as above, to the end, with no numeric check.\<close>

fun buildLoop :: "string \<Rightarrow> string \<Rightarrow> string \<Rightarrow> (string \<times> string) option" where
  "buildLoop cur done [] = (if cur = [] then None else Some (rev done, []))"
| "buildLoop cur done (c # cs) =
     (if \<not> isIdentChar c \<and> c \<noteq> CHR ''.'' then None
      else if c = CHR ''.'' then
        (if cur = [] then None else buildLoop [] (c # done) cs)
      else buildLoop (cur @ [c]) (c # done) cs)"

definition parseBuild :: "string \<Rightarrow> (string \<times> string) option" where
  "parseBuild v =
     (case v of
        [] \<Rightarrow> None
      | c # cs \<Rightarrow> if c \<noteq> CHR ''+'' then None else buildLoop [] [c] cs)"

text \<open>
  \<^verbatim>\<open>parse\<close>, the steps after the patch number: an optional pre-release, an optional
  build suffix, and nothing after them.
\<close>

definition parseTail :: "parsed \<Rightarrow> string \<Rightarrow> parsed option" where
  "parseTail p v =
     (case (if v \<noteq> [] \<and> hd v = CHR ''-''
            then (case parsePrerelease v of
                    None \<Rightarrow> None
                  | Some (t, r) \<Rightarrow> Some (p\<lparr>prerelease := t\<rparr>, r))
            else Some (p, v)) of
        None \<Rightarrow> None
      | Some (p1, v1) \<Rightarrow>
          (case (if v1 \<noteq> [] \<and> hd v1 = CHR ''+''
                 then (case parseBuild v1 of
                         None \<Rightarrow> None
                       | Some (t, r) \<Rightarrow> Some (p1\<lparr>build := t\<rparr>, r))
                 else Some (p1, v1)) of
             None \<Rightarrow> None
           | Some (p2, v2) \<Rightarrow> if v2 \<noteq> [] then None else Some p2))"

text \<open>
  \<^verbatim>\<open>parse\<close>: a \<^verbatim>\<open>v\<close>, the major number, and optionally the minor and the patch
  number; a missing minor or patch number counts as \<^verbatim>\<open>0\<close>. \<open>None\<close> is
  \<^verbatim>\<open>ok == false\<close>.
\<close>

definition parse :: "string \<Rightarrow> parsed option" where
  "parse v =
     (case v of
        [] \<Rightarrow> None
      | c # v0 \<Rightarrow>
          if c \<noteq> CHR ''v'' then None
          else
            (case parseInt v0 of
               None \<Rightarrow> None
             | Some (mj, v1) \<Rightarrow>
                 if v1 = [] then
                   Some (emptyParsed\<lparr>major := mj, minor := ''0'', patch := ''0'', short := ''.0.0''\<rparr>)
                 else if hd v1 \<noteq> CHR ''.'' then None
                 else
                   (case parseInt (tl v1) of
                      None \<Rightarrow> None
                    | Some (mn, v2) \<Rightarrow>
                        if v2 = [] then
                          Some (emptyParsed\<lparr>major := mj, minor := mn, patch := ''0'', short := ''.0''\<rparr>)
                        else if hd v2 \<noteq> CHR ''.'' then None
                        else
                          (case parseInt (tl v2) of
                             None \<Rightarrow> None
                           | Some (pt, v3) \<Rightarrow>
                               parseTail (emptyParsed\<lparr>major := mj, minor := mn, patch := pt\<rparr>) v3))))"

definition semverIsValid :: "string \<Rightarrow> bool" where
  "semverIsValid v = (parse v \<noteq> None)"

text \<open>
  \<^verbatim>\<open>MajorMinor\<close>: the prefix \<^verbatim>\<open>vMAJOR.MINOR\<close> of a valid version, the empty
  string for an invalid one.
\<close>

definition semverMajorMinor :: "string \<Rightarrow> string" where
  "semverMajorMinor v =
     (case parse v of
        None \<Rightarrow> []
      | Some pv \<Rightarrow>
          let i = 1 + length (major pv); j = i + 1 + length (minor pv)
          in if j \<le> length v \<and> v ! i = CHR ''.'' \<and> take (j - (i + 1)) (drop (i + 1) v) = minor pv
             then take j v
             else take i v @ ''.'' @ minor pv)"

text \<open>\<^verbatim>\<open>compareInt\<close>: decimal strings without leading zeros, compared as numbers.\<close>

definition compareInt :: "string \<Rightarrow> string \<Rightarrow> int" where
  "compareInt x y =
     (if x = y then 0
      else if length x < length y then -1
      else if length x > length y then 1
      else if strLess x y then -1 else 1)"

text \<open>\<^verbatim>\<open>nextIdent\<close>: the bytes up to the next dot, and the rest from that dot on.\<close>

definition nextIdent :: "string \<Rightarrow> string \<times> string" where
  "nextIdent x = (takeWhile (\<lambda>c. c \<noteq> CHR ''.'') x, dropWhile (\<lambda>c. c \<noteq> CHR ''.'') x)"

text \<open>
  The loop of \<^verbatim>\<open>comparePrerelease\<close>: both strings start with \<^verbatim>\<open>-\<close> or
  \<^verbatim>\<open>.\<close>, which is skipped, and the next identifiers are compared.
\<close>

function prereleaseCmpLoop :: "string \<Rightarrow> string \<Rightarrow> int" where
  "prereleaseCmpLoop x y =
     (if x \<noteq> [] \<and> y \<noteq> [] then
        (let (dx, x') = nextIdent (tl x); (dy, y') = nextIdent (tl y) in
         if dx \<noteq> dy then
           (let ix = isNum dx; iy = isNum dy in
            if ix \<noteq> iy then (if ix then -1 else 1)
            else if ix \<and> length dx < length dy then -1
            else if ix \<and> length dx > length dy then 1
            else if strLess dx dy then -1 else 1)
         else prereleaseCmpLoop x' y')
      else if x = [] then -1 else 1)"
  by pat_completeness auto
termination
proof (relation "measure (\<lambda>(x, y). length x)")
  show "wf (measure (\<lambda>(x, y). length x))" by simp
next
  fix x y :: string and p dx x' q dy y'
  assume "x \<noteq> [] \<and> y \<noteq> []" and "p = nextIdent (tl x)" and "(dx, x') = p"
  then have "x' = dropWhile (\<lambda>c. c \<noteq> CHR ''.'') (tl x)"
    by (simp add: nextIdent_def)
  moreover have "length (dropWhile (\<lambda>c. c \<noteq> CHR ''.'') (tl x)) \<le> length (tl x)"
    by (rule length_dropWhile_le)
  ultimately have "length x' \<le> length (tl x)"
    by (simp only:)
  moreover from \<open>x \<noteq> [] \<and> y \<noteq> []\<close> have "length (tl x) < length x"
    by (cases x) simp_all
  ultimately show "((x', y'), (x, y)) \<in> measure (\<lambda>(x, y). length x)"
    by simp
qed

definition comparePrerelease :: "string \<Rightarrow> string \<Rightarrow> int" where
  "comparePrerelease x y =
     (if x = y then 0
      else if x = [] then 1
      else if y = [] then -1
      else prereleaseCmpLoop x y)"

text \<open>
  \<^verbatim>\<open>Compare\<close>: \<open>-1\<close>, \<open>0\<close> or \<open>1\<close>. An invalid version is below every valid
  one, and two invalid versions are equal.
\<close>

definition semverCompare :: "string \<Rightarrow> string \<Rightarrow> int" where
  "semverCompare v w =
     (case (parse v, parse w) of
        (None, None) \<Rightarrow> 0
      | (None, Some pw) \<Rightarrow> -1
      | (Some pv, None) \<Rightarrow> 1
      | (Some pv, Some pw) \<Rightarrow>
          if compareInt (major pv) (major pw) \<noteq> 0 then compareInt (major pv) (major pw)
          else if compareInt (minor pv) (minor pw) \<noteq> 0 then compareInt (minor pv) (minor pw)
          else if compareInt (patch pv) (patch pw) \<noteq> 0 then compareInt (patch pv) (patch pw)
          else comparePrerelease (prerelease pv) (prerelease pw))"

subsection \<open>The version resolver of the requirement mode\<close>

text \<open>
  The diagnostics sink (package \<^verbatim>\<open>diagnostics\<close>) only receives calls; each
  \<^verbatim>\<open>Emit...\<close> function is a constructor, and a function that emits returns the
  list of its calls, in order, next to its results.
\<close>

datatype diagnostic =
    EmitUnsupportedVersionGoMod string
  | EmitUnsupportedVersionEnvironment string
  | EmitNoGoModAndNoGoEnv string
  | EmitNoGoEnv string
  | EmitNoGoMod string
  | EmitVersionGoModHigherVersionEnvironment string
  | EmitVersionGoModNotHigherVersionEnvironment string
  | EmitNewerGoVersionNeeded

record versionInfo =
  goModVersion :: string
  goModVersionFound :: bool
  goEnvVersion :: string
  goEnvVersionFound :: bool

definition minGoVersion :: string where
  "minGoVersion = ''1.11''"

definition maxGoVersion :: string where
  "maxGoVersion = ''1.20''"

definition outsideSupportedRange :: "string \<Rightarrow> bool" where
  "outsideSupportedRange version =
     (let short = semverMajorMinor (''v'' @ version)
      in semverCompare short (''v'' @ minGoVersion) < 0
         \<or> semverCompare short (''v'' @ maxGoVersion) > 0)"

text \<open>
  For comparison, the major.minor prefix of a version string as the specification words
  it: the number at the front and, when a dot follows it, the dot and the number after
  it, whatever comes next. This definition follows the specification, not the source.
\<close>

definition specMajorMinorPrefix :: "string \<Rightarrow> string" where
  "specMajorMinorPrefix version =
     (let mj = takeWhile isDigit version; r = dropWhile isDigit version
      in if r \<noteq> [] \<and> hd r = CHR ''.'' then mj @ ''.'' @ takeWhile isDigit (tl r) else mj)"

text \<open>The results \<^verbatim>\<open>(msg, version)\<close>, after the diagnostics emitted on the way.\<close>

type_synonym resolution = "diagnostic list \<times> string \<times> string"

definition checkForUnsupportedVersions :: "versionInfo \<Rightarrow> resolution" where
  "checkForUnsupportedVersions v =
     (if goModVersionFound v \<and> outsideSupportedRange (goModVersion v) then
        (let msg = ''The version of Go found in the `go.mod` file ('' @ goModVersion v
               @ '') is outside of the supported range ('' @ minGoVersion @ ''-'' @ maxGoVersion
               @ ''). Writing an environment file not specifying any version of Go.''
         in ([EmitUnsupportedVersionGoMod msg], msg, []))
      else if goEnvVersionFound v \<and> outsideSupportedRange (goEnvVersion v) then
        (let msg = ''The version of Go installed in the environment ('' @ goEnvVersion v
               @ '') is outside of the supported range ('' @ minGoVersion @ ''-'' @ maxGoVersion
               @ ''). Writing an environment file not specifying any version of Go.''
         in ([EmitUnsupportedVersionEnvironment msg], msg, []))
      else ([], [], []))"

text \<open>Three \<^verbatim>\<open>if\<close> statements in a row, each overwriting the results so far.\<close>

definition checkForVersionsNotFound :: "versionInfo \<Rightarrow> resolution" where
  "checkForVersionsNotFound v =
     (let r0 = ([], [], []);
          r1 = (if \<not> goEnvVersionFound v \<and> \<not> goModVersionFound v then
                  (let msg = ''No version of Go installed and no `go.mod` file found. Writing an environment ''
                         @ ''file specifying the maximum supported version of Go ('' @ maxGoVersion @ '').''
                   in (fst r0 @ [EmitNoGoModAndNoGoEnv msg], msg, maxGoVersion))
                else r0);
          r2 = (if \<not> goEnvVersionFound v \<and> goModVersionFound v then
                  (let msg = ''No version of Go installed. Writing an environment file specifying the version ''
                         @ ''of Go found in the `go.mod` file ('' @ goModVersion v @ '').''
                   in (fst r1 @ [EmitNoGoEnv msg], msg, goModVersion v))
                else r1);
          r3 = (if goEnvVersionFound v \<and> \<not> goModVersionFound v then
                  (let msg = ''No `go.mod` file found. Version '' @ goEnvVersion v @ '' installed in the ''
                         @ ''environment. Writing an environment file not specifying any version of Go.''
                   in (fst r2 @ [EmitNoGoMod msg], msg, []))
                else r2)
      in r3)"

definition compareVersions :: "versionInfo \<Rightarrow> resolution" where
  "compareVersions v =
     (if semverCompare (''v'' @ goModVersion v) (''v'' @ goEnvVersion v) > 0 then
        (let msg = ''The version of Go installed in the environment ('' @ goEnvVersion v
               @ '') is lower than the version found in the `go.mod` file ('' @ goModVersion v
               @ ''). Writing an environment file specifying the version of Go from the `go.mod` ''
               @ ''file ('' @ goModVersion v @ '').''
         in ([EmitVersionGoModHigherVersionEnvironment msg], msg, goModVersion v))
      else
        (let msg = ''The version of Go installed in the environment ('' @ goEnvVersion v
               @ '') is high enough for the version found in the `go.mod` file ('' @ goModVersion v
               @ ''). Writing an environment file not specifying any version of Go.''
         in ([EmitVersionGoModNotHigherVersionEnvironment msg], msg, [])))"

text \<open>
  \<^verbatim>\<open>getVersionToInstall\<close>: the three checks in order, the first one that gives a
  message decides. An empty version means that nothing is to be installed.
\<close>

definition getVersionToInstall :: "versionInfo \<Rightarrow> resolution" where
  "getVersionToInstall v =
     (case checkForUnsupportedVersions v of
        (ds1, msg1, version1) \<Rightarrow>
          if msg1 \<noteq> [] then (ds1, msg1, version1)
          else
            (case checkForVersionsNotFound v of
               (ds2, msg2, version2) \<Rightarrow>
                 if msg2 \<noteq> [] then (ds1 @ ds2, msg2, version2)
                 else
                   (case compareVersions v of
                      (ds3, msg3, version3) \<Rightarrow> (ds1 @ ds2 @ ds3, msg3, version3))))"

subsection \<open>Ways a run ends early\<close>

text \<open>
  \<^verbatim>\<open>log.Fatalf\<close> and \<^verbatim>\<open>log.Fatalln\<close> print the message and call
  \<^verbatim>\<open>os.Exit(1)\<close>: the process ends at once, and deferred calls do not run. A
  slice index out of range is a run-time panic: the deferred calls of the functions on the
  stack run, then the process ends.
\<close>

datatype abort =
    Fatal string
  | PanicIndexOutOfRange nat nat

text \<open>\<^verbatim>\<open>xs[i]\<close> on a slice.\<close>

definition index :: "'a list \<Rightarrow> nat \<Rightarrow> abort + 'a" where
  "index xs i = (if i < length xs then Inr (xs ! i) else Inl (PanicIndexOutOfRange i (length xs)))"

subsection \<open>Reading the version banner\<close>

text \<open>
  \<^verbatim>\<open>bufio.Scanner\<close> with its default split function \<^verbatim>\<open>ScanLines\<close>: a token is
  a line without its \<^verbatim>\<open>\n\<close> and without one \<^verbatim>\<open>\r\<close> before it; a last line
  without a newline is a token when it is not empty; an empty line is a token. The scanner
  stops for good (\<^verbatim>\<open>ErrTooLong\<close>) when its buffer of \<^verbatim>\<open>MaxScanTokenSize\<close> bytes
  is full and holds no newline. \<open>cur\<close> is the line read so far, in reverse.
\<close>

definition maxScanTokenSize :: nat where
  "maxScanTokenSize = 64 * 1024"

definition dropCR :: "string \<Rightarrow> string" where
  "dropCR data = (if data \<noteq> [] \<and> last data = CHR 0x0D then butlast data else data)"

fun scanLinesLoop :: "string \<Rightarrow> string \<Rightarrow> string list" where
  "scanLinesLoop cur [] = (if cur = [] then [] else [dropCR (rev cur)])"
| "scanLinesLoop cur (c # cs) =
     (if c = CHR 0x0A then dropCR (rev cur) # scanLinesLoop [] cs
      else if maxScanTokenSize \<le> length cur + 1 then []
      else scanLinesLoop (c # cur) cs)"

definition scanLines :: "string \<Rightarrow> string list" where
  "scanLines data = scanLinesLoop [] data"

text \<open>
  \<^verbatim>\<open>utf8.DecodeRuneInString\<close>, which is also what a \<^verbatim>\<open>range\<close> loop over a
  string does at every position: the code point at the front of the string and the number
  of bytes it takes. A byte sequence that is not the UTF-8 encoding of a code point
  (a stray continuation byte, a sequence cut short, an overlong form, a surrogate, a value
  above \<^verbatim>\<open>U+10FFFF\<close>) gives \<^verbatim>\<open>RuneError\<close> and the width 1. The first
  byte fixes the length of the sequence (\<open>runeSize\<close>) and the range accepted for the
  second byte (\<open>acceptLo\<close>, \<open>acceptHi\<close>); the other bytes are continuation bytes
  \<^verbatim>\<open>0x80\<close> to \<^verbatim>\<open>0xBF\<close>. Code points are natural numbers.
\<close>

definition runeError :: nat where
  "runeError = 0xFFFD"

definition runeSize :: "nat \<Rightarrow> nat" where
  "runeSize s0 =
     (if 0xC2 \<le> s0 \<and> s0 \<le> 0xDF then 2
      else if 0xE0 \<le> s0 \<and> s0 \<le> 0xEF then 3
      else if 0xF0 \<le> s0 \<and> s0 \<le> 0xF4 then 4
      else 1)"

definition acceptLo :: "nat \<Rightarrow> nat" where
  "acceptLo s0 = (if s0 = 0xE0 then 0xA0 else if s0 = 0xF0 then 0x90 else 0x80)"

definition acceptHi :: "nat \<Rightarrow> nat" where
  "acceptHi s0 = (if s0 = 0xED then 0x9F else if s0 = 0xF4 then 0x8F else 0xBF)"

definition decodeRuneInString :: "string \<Rightarrow> nat \<times> nat" where
  "decodeRuneInString s =
     (case s of
        [] \<Rightarrow> (runeError, 0)
      | c0 # rest \<Rightarrow>
          (let s0 = byte c0; sz = runeSize s0 in
           if s0 < 0x80 then (s0, 1)
           else if sz = 1 then (runeError, 1)
           else if length s < sz then (runeError, 1)
           else
             (let s1 = byte (s ! 1) in
              if s1 < acceptLo s0 \<or> acceptHi s0 < s1 then (runeError, 1)
              else if sz \<le> 2 then (s0 mod 32 * 64 + s1 mod 64, 2)
              else
                (let s2 = byte (s ! 2) in
                 if s2 < 0x80 \<or> 0xBF < s2 then (runeError, 1)
                 else if sz \<le> 3 then (s0 mod 16 * 4096 + s1 mod 64 * 64 + s2 mod 64, 3)
                 else
                   (let s3 = byte (s ! 3) in
                    if s3 < 0x80 \<or> 0xBF < s3 then (runeError, 1)
                    else (s0 mod 8 * 262144 + s1 mod 64 * 4096 + s2 mod 64 * 64 + s3 mod 64,
                          4))))))"

text \<open>
  \<^verbatim>\<open>unicode.IsSpace\<close>: in Latin-1 the six ASCII white-space characters,
  \<^verbatim>\<open>U+0085\<close> and \<^verbatim>\<open>U+00A0\<close>; above it the code points with the property
  \<^verbatim>\<open>White_Space\<close>.
\<close>

definition unicodeIsSpace :: "nat \<Rightarrow> bool" where
  "unicodeIsSpace r =
     (if r \<le> 0xFF then
        r = 0x09 \<or> r = 0x0A \<or> r = 0x0B \<or> r = 0x0C \<or> r = 0x0D \<or> r = 0x20
        \<or> r = 0x85 \<or> r = 0xA0
      else
        r = 0x1680 \<or> (0x2000 \<le> r \<and> r \<le> 0x200A) \<or> r = 0x2028 \<or> r = 0x2029
        \<or> r = 0x202F \<or> r = 0x205F \<or> r = 0x3000)"

text \<open>
  \<^verbatim>\<open>strings.FieldsFunc\<close>: the maximal runs of code points that do not satisfy
  \<open>f\<close>. \<open>cur\<close> holds the bytes of the field being read, in reverse; it is empty
  between fields (\<^verbatim>\<open>start < 0\<close>).
\<close>

function fieldsFuncLoop :: "(nat \<Rightarrow> bool) \<Rightarrow> string \<Rightarrow> string \<Rightarrow> string list" where
  "fieldsFuncLoop f cur s =
     (if s = [] then (if cur = [] then [] else [rev cur])
      else
        (let (r, n) = decodeRuneInString s in
         if f r then
           (if cur = [] then fieldsFuncLoop f [] (drop n s)
            else rev cur # fieldsFuncLoop f [] (drop n s))
         else fieldsFuncLoop f (rev (take n s) @ cur) (drop n s)))"
  by pat_completeness auto
termination
proof (relation "measure (\<lambda>(f, cur, s). length s)")
  show "wf (measure (\<lambda>(f, cur, s). length s))" by simp
next
  fix f :: "nat \<Rightarrow> bool" and cur s :: string and p r n
  assume "s \<noteq> []" and "p = decodeRuneInString s" and "(r, n) = p"
  then have "0 < n"
    by (cases s) (auto simp: decodeRuneInString_def Let_def split: if_splits)
  with \<open>s \<noteq> []\<close> show "((f, [], drop n s), (f, cur, s)) \<in> measure (\<lambda>(f, cur, s). length s)"
    by simp
next
  fix f :: "nat \<Rightarrow> bool" and cur s :: string and p r n
  assume "s \<noteq> []" and "p = decodeRuneInString s" and "(r, n) = p"
  then have "0 < n"
    by (cases s) (auto simp: decodeRuneInString_def Let_def split: if_splits)
  with \<open>s \<noteq> []\<close> show "((f, [], drop n s), (f, cur, s)) \<in> measure (\<lambda>(f, cur, s). length s)"
    by simp
next
  fix f :: "nat \<Rightarrow> bool" and cur s :: string and p r n
  assume "s \<noteq> []" and "p = decodeRuneInString s" and "(r, n) = p"
  then have "0 < n"
    by (cases s) (auto simp: decodeRuneInString_def Let_def split: if_splits)
  with \<open>s \<noteq> []\<close>
  show "((f, rev (take n s) @ cur, drop n s), (f, cur, s)) \<in> measure (\<lambda>(f, cur, s). length s)"
    by simp
qed

declare fieldsFuncLoop.simps [simp del]

definition stringsFieldsFunc :: "string \<Rightarrow> (nat \<Rightarrow> bool) \<Rightarrow> string list" where
  "stringsFieldsFunc s f = fieldsFuncLoop f [] s"

text \<open>
  \<^verbatim>\<open>strings.Fields\<close>: the fields of a string, split at white space. A string of
  ASCII bytes only is split at the six ASCII white-space bytes (\<^verbatim>\<open>\t\<close>,
  \<^verbatim>\<open>\n\<close>, \<^verbatim>\<open>\v\<close>, \<^verbatim>\<open>\f\<close>, \<^verbatim>\<open>\r\<close>, space); a string with a byte
  from \<^verbatim>\<open>0x80\<close> on (\<^verbatim>\<open>setBits >= utf8.RuneSelf\<close>) goes to
  \<^verbatim>\<open>FieldsFunc(s, unicode.IsSpace)\<close>.
\<close>

definition asciiSpace :: "char \<Rightarrow> bool" where
  "asciiSpace c =
     (c = CHR 0x09 \<or> c = CHR 0x0A \<or> c = CHR 0x0B \<or> c = CHR 0x0C \<or> c = CHR 0x0D \<or> c = CHR '' '')"

definition isASCII :: "string \<Rightarrow> bool" where
  "isASCII s = list_all (\<lambda>c. byte c \<le> byte (CHR 0x7F)) s"

fun fieldsLoop :: "string \<Rightarrow> string \<Rightarrow> string list" where
  "fieldsLoop cur [] = (if cur = [] then [] else [rev cur])"
| "fieldsLoop cur (c # cs) =
     (if asciiSpace c then (if cur = [] then fieldsLoop [] cs else rev cur # fieldsLoop [] cs)
      else fieldsLoop (c # cur) cs)"

definition stringsFields :: "string \<Rightarrow> string list" where
  "stringsFields s =
     (if isASCII s then fieldsLoop [] s else stringsFieldsFunc s unicodeIsSpace)"

text \<open>
  \<^verbatim>\<open>parseGoVersion\<close>: \<^verbatim>\<open>lastLine\<close> starts empty and is overwritten by every line
  the scanner delivers; the result is the third field of what is left in it.
\<close>

definition parseGoVersion :: "string \<Rightarrow> abort + string" where
  "parseGoVersion data =
     (let lastLine = foldl (\<lambda>lastLine text. text) [] (scanLines data)
      in index (stringsFields lastLine) 2)"

text \<open>
  For comparison, the parser as the specification words it: the version field (the third
  field, where the banner \<^verbatim>\<open>go version go1.20 linux/amd64\<close> has it) of the last
  non-empty line. This definition follows the specification, not the source.
\<close>

definition specLastNonEmptyLineVersion :: "string \<Rightarrow> string option" where
  "specLastNonEmptyLineVersion data =
     (case filter (\<lambda>l. l \<noteq> []) (scanLines data) of
        [] \<Rightarrow> None
      | l # ls \<Rightarrow>
          (let fs = stringsFields (last (l # ls))
           in if 2 < length fs then Some (fs ! 2) else None))"

subsection \<open>The process and the world around it\<close>

text \<open>
  The build mode reads and changes things outside the program: files, the working
  directory, other programs it starts. They are one value of a type \<open>'w\<close>, the world,
  and every call that leaves the program is a field of the record \<open>os\<close>: a query reads
  the world, a command also changes it. Nothing is assumed about these fields, so a
  property proved for every \<open>os\<close> holds whatever the platform and the other programs
  do. The fields are named as the Go functions they stand for; an error result is the
  text of the Go \<^verbatim>\<open>error\<close> (\<open>Inl\<close> or \<open>Some\<close>).

  \<^verbatim>\<open>FileExists\<close>, \<^verbatim>\<open>DirExists\<close>, \<^verbatim>\<open>RunCmd\<close>, \<^verbatim>\<open>DepErrors\<close> and
  \<^verbatim>\<open>GetExtractorPath\<close> belong to the package \<^verbatim>\<open>util\<close> and \<^verbatim>\<open>Autobuild\<close> to
  the package \<^verbatim>\<open>autobuilder\<close>; what these functions log themselves is not recorded.
  \<^verbatim>\<open>ImportPathFromRepoURL\<close> stands for \<^verbatim>\<open>getImportPathFromRepoURL\<close>, which the
  regular expressions and the URL parser of the standard library decide; \<open>Inl\<close> is its
  fatal error for a malformed URL.
\<close>

type_synonym 'a result = "string + 'a"

record 'w os =
  RuntimeVersion :: string
  FileExists :: "'w \<Rightarrow> string \<Rightarrow> bool"
  DirExists :: "'w \<Rightarrow> string \<Rightarrow> bool"
  ReadFile :: "'w \<Rightarrow> string \<Rightarrow> string result"
  Stat :: "'w \<Rightarrow> string \<Rightarrow> nat result"
  Getwd :: "'w \<Rightarrow> string result"
  Open :: "'w \<Rightarrow> string \<Rightarrow> string option"
  Readdirnames :: "'w \<Rightarrow> string \<Rightarrow> string list result"
  EvalSymlinks :: "'w \<Rightarrow> string \<Rightarrow> string result"
  GetExtractorPath :: "'w \<Rightarrow> string result"
  ImportPathFromRepoURL :: "string \<Rightarrow> string result"
  MkdirTemp :: "string \<Rightarrow> string \<Rightarrow> 'w \<Rightarrow> string result \<times> 'w"
  MkdirAll :: "string \<Rightarrow> 'w \<Rightarrow> string option \<times> 'w"
  Rename :: "string \<Rightarrow> string \<Rightarrow> 'w \<Rightarrow> string option \<times> 'w"
  Chdir :: "string \<Rightarrow> 'w \<Rightarrow> string option \<times> 'w"
  CreateTemp :: "string \<Rightarrow> string \<Rightarrow> 'w \<Rightarrow> string result \<times> 'w"
  WriteString :: "string \<Rightarrow> string \<Rightarrow> 'w \<Rightarrow> string option \<times> 'w"
  Close :: "string \<Rightarrow> 'w \<Rightarrow> string option \<times> 'w"
  Remove :: "string \<Rightarrow> 'w \<Rightarrow> 'w"
  Chmod :: "string \<Rightarrow> 'w \<Rightarrow> 'w"
  CombinedOutput :: "string list \<Rightarrow> 'w \<Rightarrow> (string \<times> string option) \<times> 'w"
  RunCmd :: "string list \<Rightarrow> 'w \<Rightarrow> bool \<times> 'w"
  Run :: "string list \<Rightarrow> 'w \<Rightarrow> string option \<times> 'w"
  Autobuild :: "'w \<Rightarrow> bool \<times> 'w"
  DepErrors :: "string \<Rightarrow> string list \<Rightarrow> 'w \<Rightarrow> bool \<times> 'w"

text \<open>
  How dependencies are installed (\<^verbatim>\<open>DependencyInstallerMode\<close>), and the value of
  the \<^verbatim>\<open>-mod\<close> flag (\<^verbatim>\<open>ModMode\<close>).
\<close>

datatype DependencyInstallerMode = GoGetNoModules | GoGetWithModules | Dep | Glide

datatype ModMode = ModUnset | ModReadonly | ModMod | ModVendor

text \<open>
  What a run leaves behind for an observer, in order: the lines it logs, the diagnostics
  it emits, and a mark at the entry of each function of the autobuilder that the temporal
  properties speak about, with the arguments of the call.
\<close>

datatype call =
    CallMoveToTemporaryGopath string string
  | CallRestoreRepoLayout string "string list" string string
  | CallCreatePathTransformerFile string
  | CallWritePathTransformerFile string string string string
  | CallSetGopath string
  | CallBuildWithoutCustomCommands ModMode
  | CallBuildWithCustomCommands string
  | CallInstallDependencies DependencyInstallerMode
  | CallExtract DependencyInstallerMode ModMode

datatype event =
    Log string
  | Diagnostic diagnostic
  | Call call

text \<open>
  The state of the process: the world, the environment variables, the package variable
  \<^verbatim>\<open>goVersion\<close>, and the events so far.
\<close>

record 'w state =
  world :: 'w
  env :: "string \<Rightarrow> string option"
  goVersion :: string
  trace :: "event list"

text \<open>
  A piece of the program takes the state and gives a result, or the way it ended early,
  and the state it leaves.
\<close>

type_synonym ('w, 'a) prog = "'w state \<Rightarrow> (abort + 'a) \<times> 'w state"

definition ret :: "'a \<Rightarrow> ('w, 'a) prog" where
  "ret x = (\<lambda>s. (Inr x, s))"

definition bind :: "('w, 'a) prog \<Rightarrow> ('a \<Rightarrow> ('w, 'b) prog) \<Rightarrow> ('w, 'b) prog" where
  "bind m f = (\<lambda>s. case m s of (Inl e, s') \<Rightarrow> (Inl e, s') | (Inr x, s') \<Rightarrow> f x s')"

text \<open>\<open>m\<close>, then \<open>n\<close>.\<close>

definition seq :: "('w, unit) prog \<Rightarrow> ('w, 'b) prog \<Rightarrow> ('w, 'b) prog" where
  "seq m n = bind m (\<lambda>_. n)"

definition emit :: "event \<Rightarrow> ('w, unit) prog" where
  "emit e = (\<lambda>s. (Inr (), s\<lparr>trace := trace s @ [e]\<rparr>))"

definition logPrint :: "string \<Rightarrow> ('w, unit) prog" where
  "logPrint msg = emit (Log msg)"

text \<open>\<^verbatim>\<open>log.Fatalf\<close>: the message is logged and the process exits.\<close>

definition logFatal :: "string \<Rightarrow> ('w, 'a) prog" where
  "logFatal msg = (\<lambda>s. (Inl (Fatal msg), s\<lparr>trace := trace s @ [Log msg]\<rparr>))"

definition raise :: "abort \<Rightarrow> ('w, 'a) prog" where
  "raise e = (\<lambda>s. (Inl e, s))"

definition liftAbort :: "abort + 'a \<Rightarrow> ('w, 'a) prog" where
  "liftAbort r = (case r of Inl e \<Rightarrow> raise e | Inr x \<Rightarrow> ret x)"

definition query :: "('w \<Rightarrow> 'a) \<Rightarrow> ('w, 'a) prog" where
  "query f = (\<lambda>s. (Inr (f (world s)), s))"

definition command :: "('w \<Rightarrow> 'a \<times> 'w) \<Rightarrow> ('w, 'a) prog" where
  "command f = (\<lambda>s. case f (world s) of (r, w') \<Rightarrow> (Inr r, s\<lparr>world := w'\<rparr>))"

definition command0 :: "('w \<Rightarrow> 'w) \<Rightarrow> ('w, unit) prog" where
  "command0 f = (\<lambda>s. (Inr (), s\<lparr>world := f (world s)\<rparr>))"

text \<open>
  \<^verbatim>\<open>defer d\<close> followed by the rest of the function body: when the body returns, or
  panics, the deferred call runs and the outcome of the body stands. When the body ends in
  \<^verbatim>\<open>log.Fatalf\<close> the process has exited (\<^verbatim>\<open>os.Exit\<close>) and the deferred call does
  not run.
\<close>

definition deferring :: "('w, unit) prog \<Rightarrow> ('w, 'a) prog \<Rightarrow> ('w, 'a) prog" where
  "deferring d body =
     (\<lambda>s. case body s of
            (Inl (Fatal msg), s') \<Rightarrow> (Inl (Fatal msg), s')
          | (r, s') \<Rightarrow> (case d s' of (Inl e, s'') \<Rightarrow> (Inl e, s'') | (Inr u, s'') \<Rightarrow> (r, s'')))"

subsubsection \<open>Environment variables\<close>

text \<open>\<^verbatim>\<open>os.Getenv\<close>: the empty string for a variable that is not set.\<close>

definition getenvOf :: "(string \<Rightarrow> string option) \<Rightarrow> string \<Rightarrow> string" where
  "getenvOf e k = (case e k of None \<Rightarrow> [] | Some v \<Rightarrow> v)"

definition osGetenv :: "string \<Rightarrow> ('w, string) prog" where
  "osGetenv k = (\<lambda>s. (Inr (getenvOf (env s) k), s))"

definition osLookupEnv :: "string \<Rightarrow> ('w, string \<times> bool) prog" where
  "osLookupEnv k = (\<lambda>s. (Inr (getenvOf (env s) k, env s k \<noteq> None), s))"

text \<open>
  \<^verbatim>\<open>os.Setenv\<close> on Unix: an error (\<^verbatim>\<open>EINVAL\<close>) for an empty key, a key with
  \<^verbatim>\<open>=\<close> or a NUL byte, or a value with a NUL byte.
\<close>

definition osSetenv :: "string \<Rightarrow> string \<Rightarrow> ('w, string option) prog" where
  "osSetenv k v =
     (\<lambda>s. if k = [] \<or> CHR ''='' \<in> set k \<or> CHR 0x00 \<in> set k \<or> CHR 0x00 \<in> set v
           then (Inr (Some ''setenv: invalid argument''), s)
           else (Inr None, s\<lparr>env := (env s)(k \<mapsto> v)\<rparr>))"

text \<open>
  Modelled from the spec: \<^verbatim>\<open>util.Getenv\<close> (package \<^verbatim>\<open>util\<close>, not among the source
  files) reads an option that has aliases: the value of the first of the names whose value
  is not empty, and the empty string when there is none.
\<close>

fun utilGetenvOf :: "(string \<Rightarrow> string option) \<Rightarrow> string list \<Rightarrow> string" where
  "utilGetenvOf e [] = []"
| "utilGetenvOf e (k # ks) = (if getenvOf e k \<noteq> [] then getenvOf e k else utilGetenvOf e ks)"

definition utilGetenv :: "string \<Rightarrow> string list \<Rightarrow> ('w, string) prog" where
  "utilGetenv key aliases = (\<lambda>s. (Inr (utilGetenvOf (env s) (key # aliases)), s))"

subsection \<open>Paths (package \<^verbatim>\<open>path/filepath\<close> on Unix)\<close>

text \<open>
  The model is of the autobuilder on a Unix platform: the separator is \<^verbatim>\<open>/\<close>, there
  are no volume names, the path list separator is \<^verbatim>\<open>:\<close> and \<^verbatim>\<open>runtime.GOOS\<close>
  is not \<^verbatim>\<open>windows\<close>.
\<close>

definition runtimeGOOS :: string where
  "runtimeGOOS = ''linux''"

definition pathListSeparator :: string where
  "pathListSeparator = '':''"

text \<open>The pieces of a string between the occurrences of a byte; \<open>cur\<close> is in reverse.\<close>

fun splitLoop :: "char \<Rightarrow> string \<Rightarrow> string \<Rightarrow> string list" where
  "splitLoop sep cur [] = [rev cur]"
| "splitLoop sep cur (c # cs) =
     (if c = sep then rev cur # splitLoop sep [] cs else splitLoop sep (c # cur) cs)"

definition splitOn :: "char \<Rightarrow> string \<Rightarrow> string list" where
  "splitOn sep s = splitLoop sep [] s"

text \<open>\<^verbatim>\<open>strings.Join\<close>.\<close>

fun stringsJoin :: "string list \<Rightarrow> string \<Rightarrow> string" where
  "stringsJoin [] sep = []"
| "stringsJoin [x] sep = x"
| "stringsJoin (x # y # ys) sep = x @ sep @ stringsJoin (y # ys) sep"

text \<open>
  \<^verbatim>\<open>filepath.Clean\<close>, element by element: empty elements and \<^verbatim>\<open>.\<close> are dropped,
  \<^verbatim>\<open>..\<close> removes the element before it, is dropped at the root and is kept at the
  front of a relative path. \<open>out\<close> holds the elements kept so far, the last one first.
\<close>

fun cleanElems :: "bool \<Rightarrow> string list \<Rightarrow> string list \<Rightarrow> string list" where
  "cleanElems rooted out [] = rev out"
| "cleanElems rooted out (e # es) =
     (if e = [] \<or> e = ''.'' then cleanElems rooted out es
      else if e = ''..'' then
        (case out of
           [] \<Rightarrow> if rooted then cleanElems rooted out es else cleanElems rooted [e] es
         | p # ps \<Rightarrow> if p = ''..'' then cleanElems rooted (e # out) es
                     else cleanElems rooted ps es)
      else cleanElems rooted (e # out) es)"

definition filepathClean :: "string \<Rightarrow> string" where
  "filepathClean p =
     (if p = [] then ''.''
      else
        (let rooted = (hd p = CHR ''/'');
             out = stringsJoin (cleanElems rooted [] (splitOn (CHR ''/'') p)) ''/''
         in if rooted then ''/'' @ out else if out = [] then ''.'' else out))"

text \<open>\<^verbatim>\<open>filepath.Join\<close>: the elements from the first non-empty one on, joined and cleaned.\<close>

definition filepathJoin :: "string list \<Rightarrow> string" where
  "filepathJoin elem =
     (case dropWhile (\<lambda>e. e = []) elem of
        [] \<Rightarrow> []
      | e # es \<Rightarrow> filepathClean (stringsJoin (e # es) ''/''))"

text \<open>\<^verbatim>\<open>filepath.Base\<close>: the last element, after trailing slashes are removed.\<close>

definition filepathBase :: "string \<Rightarrow> string" where
  "filepathBase p =
     (if p = [] then ''.''
      else
        (let stripped = rev (dropWhile (\<lambda>c. c = CHR ''/'') (rev p));
             last_elem = rev (takeWhile (\<lambda>c. c \<noteq> CHR ''/'') (rev stripped))
         in if last_elem = [] then ''/'' else last_elem))"

text \<open>\<^verbatim>\<open>filepath.Dir\<close>: all up to the last slash, cleaned.\<close>

definition filepathDir :: "string \<Rightarrow> string" where
  "filepathDir p = filepathClean (rev (dropWhile (\<lambda>c. c \<noteq> CHR ''/'') (rev p)))"

subsection \<open>Flags for the Go compiler\<close>

definition argsForGoVersion :: "ModMode \<Rightarrow> string \<Rightarrow> ('w, string list) prog" where
  "argsForGoVersion m version =
     (case m of
        ModUnset \<Rightarrow> ret []
      | ModReadonly \<Rightarrow> ret [''-mod=readonly'']
      | ModMod \<Rightarrow>
          if \<not> semverIsValid version then logFatal (''Invalid Go semver: '' @ [CHR 0x27] @ version @ [CHR 0x27])
          else if semverCompare version ''v1.14'' < 0 then ret []
          else ret [''-mod=mod'']
      | ModVendor \<Rightarrow> ret [''-mod=vendor''])"

subsection \<open>The installed Go version\<close>

definition getEnvGoVersion :: "'w os \<Rightarrow> ('w, string) prog" where
  "getEnvGoVersion os =
     (\<lambda>s. if goVersion s = [] then
             bind (command (CombinedOutput os [''go'', ''version''])) (\<lambda>(gover, err).
               case err of
                 Some e \<Rightarrow> logFatal (''Unable to run the go command, is it installed?'' @ [CHR 0x0A] @ ''Error: '' @ e)
               | None \<Rightarrow>
                   bind (liftAbort (parseGoVersion gover)) (\<lambda>v s'. (Inr v, s'\<lparr>goVersion := v\<rparr>))) s
           else (Inr (goVersion s), s))"

definition stringsHasPrefix :: "string \<Rightarrow> string \<Rightarrow> bool" where
  "stringsHasPrefix s pre = (take (length pre) s = pre)"

definition getEnvGoSemVer :: "'w os \<Rightarrow> ('w, string) prog" where
  "getEnvGoSemVer os =
     bind (getEnvGoVersion os) (\<lambda>goVersion.
       if \<not> stringsHasPrefix goVersion ''go'' then
         logFatal (''Expected '' @ [CHR 0x27] @ ''go version'' @ [CHR 0x27] @ '' output of the form ''
                   @ [CHR 0x27] @ ''go1.2.3'' @ [CHR 0x27] @ ''; got '' @ [CHR 0x27] @ goVersion @ [CHR 0x27])
       else ret (''v'' @ drop 2 goVersion))"

subsection \<open>The import path\<close>

definition getImportPath :: "'w os \<Rightarrow> ('w, string) prog" where
  "getImportPath os =
     bind (osGetenv ''LGTM_INDEX_IMPORT_PATH'') (\<lambda>importpath.
       if importpath = [] then
         bind (osGetenv ''SEMMLE_REPO_URL'') (\<lambda>repourl.
           if repourl = [] then
             bind (osGetenv ''GITHUB_REPOSITORY'') (\<lambda>githubrepo.
               if githubrepo = [] then
                 seq (logPrint ''Unable to determine import path, as neither LGTM_INDEX_IMPORT_PATH nor GITHUB_REPOSITORY is set'')
                     (ret [])
               else
                 seq (logPrint (''Import path is '' @ [CHR 0x27] @ ''github.com/'' @ githubrepo @ [CHR 0x27]))
                     (ret (''github.com/'' @ githubrepo)))
           else
             (case ImportPathFromRepoURL os repourl of
                Inl e \<Rightarrow> logFatal (''Malformed repository URL '' @ [CHR 0x27] @ repourl @ [CHR 0x27])
              | Inr fromurl \<Rightarrow>
                  if fromurl = [] then
                    seq (logPrint (''Failed to determine import path from SEMMLE_REPO_URL ''
                                   @ [CHR 0x27] @ repourl @ [CHR 0x27]))
                        (ret [])
                  else
                    seq (logPrint (''Import path is '' @ [CHR 0x27] @ fromurl @ [CHR 0x27]))
                        (ret fromurl)))
       else
         seq (logPrint (''Import path is '' @ [CHR 0x27] @ importpath @ [CHR 0x27]))
             (ret importpath))"

subsection \<open>Undoing the relocation\<close>

text \<open>The loop of \<^verbatim>\<open>restoreRepoLayout\<close>: a failed move is logged and the loop goes on.\<close>

fun restoreEntries :: "'w os \<Rightarrow> string \<Rightarrow> string list \<Rightarrow> string \<Rightarrow> string \<Rightarrow> ('w, unit) prog" where
  "restoreEntries os fromDir [] scratchDirName toDir = ret ()"
| "restoreEntries os fromDir (dirEntry # dirEntries) scratchDirName toDir =
     seq (if dirEntry \<noteq> scratchDirName then
            seq (logPrint (''Restoring '' @ fromDir @ ''/'' @ dirEntry @ '' to '' @ toDir @ ''/'' @ dirEntry @ ''.''))
                (bind (command (Rename os (filepathJoin [fromDir, dirEntry]) (filepathJoin [toDir, dirEntry])))
                   (\<lambda>err. case err of
                      Some e \<Rightarrow>
                        logPrint (''Failed to move file/directory '' @ dirEntry @ '' from directory '' @ fromDir
                                  @ '' to directory '' @ toDir @ '': '' @ e)
                    | None \<Rightarrow> ret ()))
          else ret ())
         (restoreEntries os fromDir dirEntries scratchDirName toDir)"

definition restoreRepoLayout :: "'w os \<Rightarrow> string \<Rightarrow> string list \<Rightarrow> string \<Rightarrow> string \<Rightarrow> ('w, unit) prog" where
  "restoreRepoLayout os fromDir dirEntries scratchDirName toDir =
     seq (emit (Call (CallRestoreRepoLayout fromDir dirEntries scratchDirName toDir)))
         (restoreEntries os fromDir dirEntries scratchDirName toDir)"

subsection \<open>Commands of the Go tool chain\<close>

definition addVersionToMod :: "'w os \<Rightarrow> string \<Rightarrow> ('w, bool) prog" where
  "addVersionToMod os version = command (RunCmd os [''go'', ''mod'', ''edit'', ''-go='' @ version])"

text \<open>
  \<^verbatim>\<open>checkVendor\<close>. The regular expression \<^verbatim>\<open>(?m)^go: inconsistent vendoring in .*:$\<close>
  matches when a line of the output starts with the fixed words and ends with a colon.
\<close>

definition inconsistentVendoringLine :: "string \<Rightarrow> bool" where
  "inconsistentVendoringLine l =
     (stringsHasPrefix l ''go: inconsistent vendoring in ''
      \<and> length ''go: inconsistent vendoring in '' < length l
      \<and> last l = CHR '':'')"

definition checkVendor :: "'w os \<Rightarrow> ('w, bool) prog" where
  "checkVendor os =
     bind (command (CombinedOutput os [''go'', ''list'', ''-mod=vendor'', ''./...''])) (\<lambda>(outp, err).
       if err \<noteq> None then ret (\<not> list_ex inconsistentVendoringLine (splitOn (CHR 0x0A) outp))
       else ret True)"

subsection \<open>The strategy selector\<close>

definition getSourceDir :: "'w os \<Rightarrow> ('w, string) prog" where
  "getSourceDir os =
     bind (osGetenv ''LGTM_SRC'') (\<lambda>srcdir.
       if srcdir \<noteq> [] then
         seq (logPrint (''LGTM_SRC is '' @ srcdir)) (ret srcdir)
       else
         bind (query (Getwd os)) (\<lambda>r.
           case r of
             Inl e \<Rightarrow> logFatal ''Failed to get current working directory.''
           | Inr cwd \<Rightarrow>
               seq (logPrint (''LGTM_SRC is not set; defaulting to current working directory '' @ cwd))
                   (ret cwd)))"

definition getDepMode :: "'w os \<Rightarrow> ('w, DependencyInstallerMode) prog" where
  "getDepMode os =
     bind (query (\<lambda>w. FileExists os w ''go.mod'')) (\<lambda>hasGoMod.
       if hasGoMod then
         seq (logPrint ''Found go.mod, enabling go modules'') (ret GoGetWithModules)
       else
         bind (query (\<lambda>w. FileExists os w ''Gopkg.toml'')) (\<lambda>hasGopkg.
           if hasGopkg then
             seq (logPrint ''Found Gopkg.toml, using dep instead of go get'') (ret Dep)
           else
             bind (query (\<lambda>w. FileExists os w ''glide.yaml'')) (\<lambda>hasGlide.
               if hasGlide then
                 seq (logPrint ''Found glide.yaml, enabling go modules'') (ret Glide)
               else ret GoGetNoModules)))"

text \<open>
  The regular expression \<^verbatim>\<open>(?m)^go[ \t\r]+([0-9]+\.[0-9]+)$\<close> on one line: the word
  \<^verbatim>\<open>go\<close>, at least one blank, tab or carriage return, digits, a dot, digits, and the
  end of the line. The result is the part in parentheses.
\<close>

definition goDirectiveOfLine :: "string \<Rightarrow> string option" where
  "goDirectiveOfLine l =
     (if \<not> stringsHasPrefix l ''go'' then None
      else
        (let blank = (\<lambda>c. c = CHR '' '' \<or> c = CHR 0x09 \<or> c = CHR 0x0D);
             r1 = drop 2 l;
             r2 = dropWhile blank r1;
             mj = takeWhile isDigit r2;
             r3 = dropWhile isDigit r2
         in if takeWhile blank r1 = [] \<or> mj = [] \<or> r3 = [] \<or> hd r3 \<noteq> CHR ''.'' then None
            else
              (let mn = takeWhile isDigit (tl r3);
                   r4 = dropWhile isDigit (tl r3)
               in if mn = [] \<or> r4 \<noteq> [] then None else Some (mj @ ''.'' @ mn))))"

text \<open>\<^verbatim>\<open>FindSubmatch\<close> gives the leftmost match: the first line that matches.\<close>

fun firstMatch :: "('a \<Rightarrow> 'b option) \<Rightarrow> 'a list \<Rightarrow> 'b option" where
  "firstMatch f [] = None"
| "firstMatch f (x # xs) = (case f x of Some y \<Rightarrow> Some y | None \<Rightarrow> firstMatch f xs)"

definition tryReadGoDirective :: "'w os \<Rightarrow> DependencyInstallerMode \<Rightarrow> ('w, string \<times> bool) prog" where
  "tryReadGoDirective os depMode =
     (if depMode = GoGetWithModules then
        bind (query (\<lambda>w. ReadFile os w ''go.mod'')) (\<lambda>r.
          case r of
            Inl e \<Rightarrow>
              seq (logPrint ''Failed to read go.mod to check for missing Go version'') (ret ([], False))
          | Inr goMod \<Rightarrow>
              (case firstMatch goDirectiveOfLine (splitOn (CHR 0x0A) goMod) of
                 Some version \<Rightarrow> ret (version, True)
               | None \<Rightarrow> ret ([], False)))
      else ret ([], False))"

definition getModMode :: "'w os \<Rightarrow> DependencyInstallerMode \<Rightarrow> ('w, ModMode) prog" where
  "getModMode os depMode =
     (if depMode = GoGetWithModules then
        bind (query (\<lambda>w. FileExists os w ''vendor/modules.txt'')) (\<lambda>hasModulesTxt.
          if hasModulesTxt then ret ModVendor
          else
            bind (query (\<lambda>w. DirExists os w ''vendor'')) (\<lambda>hasVendor.
              if hasVendor then ret ModMod else ret ModUnset))
      else ret ModUnset)"

definition fixGoVendorIssues ::
    "'w os \<Rightarrow> ModMode \<Rightarrow> DependencyInstallerMode \<Rightarrow> bool \<Rightarrow> ('w, ModMode) prog" where
  "fixGoVendorIssues os modMode depMode =
     (\<lambda>goModVersionFound.
      if modMode = ModVendor \<and> depMode = GoGetWithModules \<and> \<not> goModVersionFound then
        bind (query (\<lambda>w. ReadFile os w ''vendor/modules.txt'')) (\<lambda>r.
          case r of
            Inl e \<Rightarrow>
              seq (logPrint ''Failed to read vendor/modules.txt to check for mismatched Go version'')
                  (ret modMode)
          | Inr modulesTxt \<Rightarrow>
              if \<not> list_ex (\<lambda>l. l = ''## explicit'') (splitOn (CHR 0x0A) modulesTxt) then
                seq (logPrint ''Adding a version directive to the go.mod file as the modules.txt does not have explicit annotations'')
                    (bind (addVersionToMod os ''1.13'') (\<lambda>added.
                       if \<not> added then
                         seq (logPrint ''Failed to add a version to the go.mod file to fix explicitly required package bug; not using vendored dependencies'')
                             (ret ModMod)
                       else ret modMode))
              else ret modMode)
      else ret modMode)"

text \<open>
  \<^verbatim>\<open>getNeedGopath\<close>: the default from the installer mode, then the override
  \<^verbatim>\<open>LGTM_INDEX_NEED_GOPATH\<close>, then the import path.
\<close>

definition getNeedGopath :: "DependencyInstallerMode \<Rightarrow> string \<Rightarrow> ('w, bool) prog" where
  "getNeedGopath depMode importpath =
     bind (ret (if depMode = GoGetWithModules then False else True)) (\<lambda>needGopath.
     bind (osGetenv ''LGTM_INDEX_NEED_GOPATH'') (\<lambda>needGopathOverride.
     bind (if needGopathOverride \<noteq> [] then
             (if needGopathOverride = ''true'' then ret True
              else if needGopathOverride = ''false'' then ret False
              else logFatal (''Unexpected value for Boolean environment variable LGTM_NEED_GOPATH: ''
                             @ needGopathOverride @ ''.''))
           else ret needGopath) (\<lambda>needGopath.
     if needGopath \<and> importpath = [] then
       seq (logPrint ''Failed to determine import path, not setting up GOPATH'') (ret False)
     else ret needGopath)))"

text \<open>
  \<^verbatim>\<open>tryUpdateGoModAndGoSum\<close>. \<^verbatim>\<open>os.Stat\<close> gives the modification time; the
  \<^verbatim>\<open>FileInfo\<close> is \<^verbatim>\<open>nil\<close> exactly when there is an error.
\<close>

definition tryUpdateGoModAndGoSum :: "'w os \<Rightarrow> ModMode \<Rightarrow> DependencyInstallerMode \<Rightarrow> ('w, unit) prog" where
  "tryUpdateGoModAndGoSum os modMode depMode =
     (if modMode \<noteq> ModVendor \<and> depMode = GoGetWithModules then
        bind (getEnvGoSemVer os) (\<lambda>envSemVer.
          if semverCompare envSemVer ''v1.16'' \<ge> 0 then
            bind (query (\<lambda>w. Stat os w ''go.mod'')) (\<lambda>beforeGoMod.
            seq (case beforeGoMod of
                   Inl e \<Rightarrow> logPrint (''Failed to stat go.mod before running `go mod tidy -e`'')
                 | Inr t \<Rightarrow> ret ())
            (bind (query (\<lambda>w. Stat os w ''go.sum'')) (\<lambda>beforeGoSum.
            bind (command (RunCmd os [''go'', ''mod'', ''tidy'', ''-e''])) (\<lambda>res.
              if \<not> res then logPrint ''Failed to run `go mod tidy -e`''
              else
                seq (case beforeGoMod of
                       Inl e \<Rightarrow> ret ()
                     | Inr before \<Rightarrow>
                         bind (query (\<lambda>w. Stat os w ''go.mod'')) (\<lambda>afterGoMod.
                           case afterGoMod of
                             Inl e \<Rightarrow> logPrint ''Failed to stat go.mod after running `go mod tidy -e`''
                           | Inr after \<Rightarrow>
                               if before < after then
                                 logPrint ''We have run `go mod tidy -e` and it altered go.mod. You may wish to check these changes into version control. ''
                               else ret ()))
                (bind (query (\<lambda>w. Stat os w ''go.sum'')) (\<lambda>afterGoSum.
                   case afterGoSum of
                     Inl e \<Rightarrow> logPrint ''Failed to stat go.sum after running `go mod tidy -e`''
                   | Inr after \<Rightarrow>
                       if (case beforeGoSum of Inl e \<Rightarrow> True | Inr before \<Rightarrow> before < after) then
                         logPrint ''We have run `go mod tidy -e` and it altered go.sum. You may wish to check these changes into version control. ''
                       else ret ()))))))
          else ret ())
      else ret ())"

subsection \<open>The relocation into a temporary GOPATH\<close>

record moveGopathInfo =
  scratch :: string
  realSrc :: string
  root :: string
  newdir :: string
  files :: "string list"

text \<open>
  The loop of \<^verbatim>\<open>moveToTemporaryGopath\<close> that moves every entry but the scratch
  directory into the scratch directory; a failed move is fatal.
\<close>

fun moveEntries :: "'w os \<Rightarrow> string \<Rightarrow> string \<Rightarrow> string list \<Rightarrow> ('w, unit) prog" where
  "moveEntries os srcdir scratchDir [] = ret ()"
| "moveEntries os srcdir scratchDir (file # rest) =
     seq (if file \<noteq> filepathBase scratchDir then
            seq (logPrint (''Moving '' @ srcdir @ ''/'' @ file @ '' to '' @ scratchDir @ ''/'' @ file @ ''.''))
                (bind (command (Rename os (filepathJoin [srcdir, file]) (filepathJoin [scratchDir, file])))
                   (\<lambda>err. case err of
                      Some e \<Rightarrow>
                        logFatal (''Failed to move file '' @ file @ '' to the temporary directory: '' @ e)
                    | None \<Rightarrow> ret ()))
          else ret ())
         (moveEntries os srcdir scratchDir rest)"

definition moveToTemporaryGopath :: "'w os \<Rightarrow> string \<Rightarrow> string \<Rightarrow> ('w, moveGopathInfo) prog" where
  "moveToTemporaryGopath os srcdir importpath =
     seq (emit (Call (CallMoveToTemporaryGopath srcdir importpath)))
     (bind (command (MkdirTemp os srcdir ''scratch'')) (\<lambda>made.
        case made of
          Inl e \<Rightarrow>
            logFatal (''Failed to create temporary directory  in directory '' @ srcdir @ '': '' @ e)
        | Inr scratchDir \<Rightarrow>
            seq (logPrint (''Temporary directory is '' @ scratchDir @ ''.''))
            (bind (query (\<lambda>w. Open os w srcdir)) (\<lambda>openErr.
               case openErr of
                 Some e \<Rightarrow>
                   logFatal (''Failed to open source directory '' @ srcdir @ '' for reading: '' @ e)
               | None \<Rightarrow>
                   bind (query (\<lambda>w. Readdirnames os w srcdir)) (\<lambda>listed.
                     case listed of
                       Inl e \<Rightarrow> logFatal (''Failed to read source directory '' @ srcdir @ '': '' @ e)
                     | Inr names \<Rightarrow>
                         seq (moveEntries os srcdir scratchDir names)
                         (bind (query (\<lambda>w. EvalSymlinks os w srcdir)) (\<lambda>resolved.
                            case resolved of
                              Inl e \<Rightarrow>
                                logFatal (''Failed to evaluate symlinks in '' @ srcdir @ '': '' @ e)
                            | Inr real \<Rightarrow>
                                (let rootDir = filepathJoin [real, ''root''];
                                     newDir = filepathJoin [rootDir, ''src'', importpath]
                                 in bind (command (MkdirAll os (filepathDir newDir))) (\<lambda>mkErr.
                                      case mkErr of
                                        Some e \<Rightarrow>
                                          logFatal (''Failed to create directory '' @ newDir @ '': '' @ e)
                                      | None \<Rightarrow>
                                          seq (logPrint (''Moving '' @ scratchDir @ '' to '' @ newDir @ ''.''))
                                          (bind (command (Rename os scratchDir newDir)) (\<lambda>mvErr.
                                             case mvErr of
                                               Some e \<Rightarrow>
                                                 logFatal (''Failed to rename '' @ scratchDir @ '' to ''
                                                           @ newDir @ '': '' @ e)
                                             | None \<Rightarrow>
                                                 ret \<lparr>scratch = scratchDir, realSrc = real, root = rootDir,
                                                      newdir = newDir, files = names\<rparr>)))))))))))"

text \<open>
  \<^verbatim>\<open>createPathTransformerFile\<close>. An open file (\<^verbatim>\<open>*os.File\<close>) is known by its name.
\<close>

definition createPathTransformerFile :: "'w os \<Rightarrow> string \<Rightarrow> ('w, string) prog" where
  "createPathTransformerFile os dir =
     seq (emit (Call (CallCreatePathTransformerFile dir)))
     (bind (command (Chdir os dir)) (\<lambda>err.
        case err of
          Some e \<Rightarrow> logFatal (''Failed to chdir into '' @ dir @ '': '' @ e)
        | None \<Rightarrow>
            bind (command (CreateTemp os [] ''path-transformer'')) (\<lambda>created.
              case created of
                Inl e \<Rightarrow> logFatal (''Unable to create path transformer file: '' @ e @ ''.'')
              | Inr pt \<Rightarrow> ret pt)))"

definition writePathTransformerFile :: "'w os \<Rightarrow> string \<Rightarrow> string \<Rightarrow> string \<Rightarrow> string \<Rightarrow> ('w, unit) prog" where
  "writePathTransformerFile os pt real rootDir dir =
     seq (emit (Call (CallWritePathTransformerFile pt real rootDir dir)))
     (bind (command (WriteString os pt (''#'' @ real @ [CHR 0x0A] @ dir @ ''//'' @ [CHR 0x0A]))) (\<lambda>err.
        case err of
          Some e \<Rightarrow> logFatal (''Unable to write path transformer file: '' @ e @ ''.'')
        | None \<Rightarrow>
            bind (command (Close os pt)) (\<lambda>err.
              case err of
                Some e \<Rightarrow> logFatal (''Unable to close path transformer file: '' @ e @ ''.'')
              | None \<Rightarrow>
                  bind (osSetenv ''SEMMLE_PATH_TRANSFORMER'' pt) (\<lambda>err.
                    case err of
                      Some e \<Rightarrow>
                        logFatal (''Unable to set SEMMLE_PATH_TRANSFORMER environment variable: '' @ e @ ''.'')
                    | None \<Rightarrow> ret ()))))"

definition setGopath :: "string \<Rightarrow> ('w, unit) prog" where
  "setGopath rootDir =
     seq (emit (Call (CallSetGopath rootDir)))
     (bind (osGetenv ''GOPATH'') (\<lambda>oldGopath.
        (let newGopath = (if oldGopath \<noteq> [] then stringsJoin [rootDir, oldGopath] pathListSeparator
                          else rootDir)
         in bind (osSetenv ''GOPATH'' newGopath) (\<lambda>err.
              case err of
                Some e \<Rightarrow> logFatal (''Unable to set GOPATH to '' @ newGopath @ '': '' @ e)
              | None \<Rightarrow> logPrint (''GOPATH set to '' @ newGopath @ ''.'')))))"

subsection \<open>Building, installing dependencies, extracting\<close>

definition buildWithoutCustomCommands :: "'w os \<Rightarrow> ModMode \<Rightarrow> ('w, bool) prog" where
  "buildWithoutCustomCommands os modMode =
     seq (emit (Call (CallBuildWithoutCustomCommands modMode)))
     (bind (command (Autobuild os)) (\<lambda>buildSucceeded.
        if \<not> buildSucceeded then
          seq (logPrint ''Build failed, continuing to install dependencies.'') (ret True)
        else
          bind (getEnvGoSemVer os) (\<lambda>envSemVer.
          bind (argsForGoVersion modMode envSemVer) (\<lambda>flags.
          bind (command (DepErrors os ''./...'' flags)) (\<lambda>depErrors.
            if depErrors then
              seq (logPrint ''Dependencies are still not resolving after the build, continuing to install dependencies.'')
                  (ret True)
            else ret False)))))"

definition buildWithCustomCommands :: "'w os \<Rightarrow> string \<Rightarrow> ('w, unit) prog" where
  "buildWithCustomCommands os inst =
     seq (emit (Call (CallBuildWithCustomCommands inst)))
     (let ext = (if runtimeGOOS = ''windows'' then ''.cmd'' else ''.sh'');
          header = (if runtimeGOOS = ''windows'' then ''@echo on'' @ [CHR 0x0A] @ ''@prompt +$S'' @ [CHR 0x0A]
                    else ''#! /bin/bash'' @ [CHR 0x0A] @ ''set -xe +u'' @ [CHR 0x0A]);
          footer = (if runtimeGOOS = ''windows'' then [CHR 0x0A] @ ''IF %ERRORLEVEL% NEQ 0 EXIT'' else [])
      in bind (command (CreateTemp os [] (''go-build-command-*'' @ ext))) (\<lambda>created.
           case created of
             Inl e \<Rightarrow>
               logFatal (''Unable to create temporary script holding custom build commands: '' @ e)
           | Inr script \<Rightarrow>
               deferring (command0 (Remove os script))
                 (bind (command (WriteString os script (header @ inst @ footer))) (\<lambda>err.
                    case err of
                      Some e \<Rightarrow>
                        logFatal (''Unable to write to temporary script holding custom build commands: '' @ e)
                    | None \<Rightarrow>
                        bind (command (Close os script)) (\<lambda>err.
                          case err of
                            Some e \<Rightarrow>
                              logFatal (''Unable to close temporary script holding custom build commands: '' @ e)
                          | None \<Rightarrow>
                              seq (command0 (Chmod os script))
                              (seq (logPrint ''Installing dependencies using custom build command.'')
                              (bind (command (RunCmd os [script])) (\<lambda>ran. ret ()))))))))"

definition installDependencies :: "'w os \<Rightarrow> DependencyInstallerMode \<Rightarrow> ('w, unit) prog" where
  "installDependencies os depMode =
     seq (emit (Call (CallInstallDependencies depMode)))
     (bind
        (if depMode = Dep then
           seq (bind (osGetenv ''SEMMLE_CACHE'') (\<lambda>cacheDir.
                  if cacheDir \<noteq> [] then
                    (let depCacheDir = filepathJoin [cacheDir, ''go'', ''dep''] in
                     seq (logPrint (''Attempting to create dep cache dir '' @ depCacheDir))
                     (bind (command (MkdirAll os depCacheDir)) (\<lambda>err.
                        case err of
                          Some e \<Rightarrow> logPrint (''Failed to create dep cache directory: '' @ e)
                        | None \<Rightarrow>
                            seq (logPrint (''Setting dep cache directory to '' @ depCacheDir))
                            (bind (osSetenv ''DEPCACHEDIR'' depCacheDir) (\<lambda>err.
                               case err of
                                 Some e \<Rightarrow> logPrint ''Failed to set dep cache directory''
                               | None \<Rightarrow>
                                   bind (osSetenv ''DEPCACHEAGE'' ''720h'') (\<lambda>err.
                                     case err of
                                       Some e \<Rightarrow> logPrint ''Failed to set dep cache age''
                                     | None \<Rightarrow> ret ()))))))
                  else ret ()))
           (bind (query (\<lambda>w. FileExists os w ''Gopkg.lock'')) (\<lambda>hasLock.
              seq (logPrint ''Installing dependencies using `dep ensure`.'')
                  (ret (if hasLock then [''dep'', ''ensure'', ''-v'', ''-vendor-only'']
                        else [''dep'', ''ensure'', ''-v'']))))
         else if depMode = Glide then
           seq (logPrint ''Installing dependencies using `glide install`'')
               (ret [''glide'', ''install''])
         else
           seq (if depMode = GoGetWithModules then bind (osSetenv ''GO111MODULE'' ''on'') (\<lambda>err. ret ())
                else if depMode = GoGetNoModules then bind (osSetenv ''GO111MODULE'' ''off'') (\<lambda>err. ret ())
                else ret ())
           (seq (logPrint ''Installing dependencies using `go get -v ./...`.'')
                (ret [''go'', ''get'', ''-v'', ''./...''])))
        (\<lambda>install. bind (command (RunCmd os install)) (\<lambda>ran. ret ())))"

text \<open>\<^verbatim>\<open>%v\<close> of a slice of strings.\<close>

definition fmtStrings :: "string list \<Rightarrow> string" where
  "fmtStrings xs = ''['' @ stringsJoin xs '' '' @ '']''"

definition
  "extract (os :: 'w os) depMode modMode =
     seq (emit (Call (CallExtract depMode modMode)))
     (bind (query (GetExtractorPath os)) (\<lambda>found.
        case found of
          Inl e \<Rightarrow> logFatal (''Could not determine path of extractor: '' @ e @ ''.'')
        | Inr extractor \<Rightarrow>
            bind (query (Getwd os)) (\<lambda>dir.
              case dir of
                Inl e \<Rightarrow> logFatal (''Unable to determine current directory: '' @ e)
              | Inr cwd \<Rightarrow>
                  bind (if depMode = GoGetWithModules then
                          bind (getEnvGoSemVer os) (\<lambda>envSemVer. argsForGoVersion modMode envSemVer)
                        else ret []) (\<lambda>modArgs.
                    (let extractorArgs = modArgs @ [''./...''] in
                     seq (logPrint (''Running extractor command '' @ [CHR 0x27] @ extractor @ '' ''
                                    @ fmtStrings extractorArgs @ [CHR 0x27] @ '' from directory ''
                                    @ [CHR 0x27] @ cwd @ [CHR 0x27] @ ''.''))
                     (bind (command (Run os (extractor # extractorArgs))) (\<lambda>err.
                        case err of
                          Some e \<Rightarrow> logFatal (''Extraction failed: '' @ e)
                        | None \<Rightarrow> (ret () :: ('w, unit) prog))))))))"

subsection \<open>The build mode: \<^verbatim>\<open>installDependenciesAndBuild\<close>\<close>

text \<open>
  The body of \<^verbatim>\<open>installDependenciesAndBuild\<close> is embedded in three parts, in the
  order of the source. The first part (up to the computation of \<^verbatim>\<open>inLGTM\<close>) decides
  how the run goes on; its local variables are the fields of \<open>runDecision\<close>.
\<close>

record runDecision =
  srcdirOf :: string
  depModeOf :: DependencyInstallerMode
  modModeOf :: ModMode
  importpathOf :: string
  needGopathOf :: bool
  inLGTMOf :: bool

definition decideRun :: "'w os \<Rightarrow> ('w, runDecision) prog" where
  "decideRun os =
     bind (getEnvGoVersion os) (\<lambda>envVersion.
     seq (logPrint (''Autobuilder was built with '' @ RuntimeVersion os @ '', environment has '' @ envVersion))
     (bind (getSourceDir os) (\<lambda>srcdir.
     bind (osSetenv ''SEMMLE_PATH_TRANSFORMER'' []) (\<lambda>ignored.
     bind (getDepMode os) (\<lambda>depMode.
     seq (bind (osLookupEnv ''GO111MODULE'') (\<lambda>(v, present).
            if \<not> present then bind (osSetenv ''GO111MODULE'' ''auto'') (\<lambda>ignored. ret ())
            else ret ()))
     (bind (tryReadGoDirective os depMode) (\<lambda>(goModVersion, goModVersionFound).
     bind (getEnvGoSemVer os) (\<lambda>envSemVer.
     seq (if semverCompare (''v'' @ goModVersion) envSemVer \<ge> 0
          then emit (Diagnostic EmitNewerGoVersionNeeded) else ret ())
     (bind (getModMode os depMode) (\<lambda>modMode.
     bind (fixGoVendorIssues os modMode depMode goModVersionFound) (\<lambda>modMode.
     seq (tryUpdateGoModAndGoSum os modMode depMode)
     (bind (getImportPath os) (\<lambda>importpath.
     bind (getNeedGopath depMode importpath) (\<lambda>needGopath.
     bind (osGetenv ''LGTM_SRC'') (\<lambda>lgtmSrc.
     bind (osGetenv ''LGTM_INDEX_NEED_GOPATH'') (\<lambda>lgtmNeedGopath.
       ret \<lparr>srcdirOf = srcdir, depModeOf = depMode, modModeOf = modMode,
            importpathOf = importpath, needGopathOf = needGopath,
            inLGTMOf = (lgtmSrc \<noteq> [] \<or> lgtmNeedGopath \<noteq> [])\<rparr>))))))))))))))))"

text \<open>
  The last part, from the check for an explicit build command to the extractor, with two
  of its blocks named: the check of the vendor directory after the build, which may change
  \<^verbatim>\<open>modMode\<close> from \<^verbatim>\<open>ModVendor\<close> to \<^verbatim>\<open>ModMod\<close>, and the installation
  of the dependencies, which a mode that is still \<^verbatim>\<open>ModVendor\<close> keeps from running.
\<close>

definition vendorRecheck :: "'w os \<Rightarrow> ModMode \<Rightarrow> ('w, ModMode) prog" where
  "vendorRecheck os modMode =
     (if modMode = ModVendor then
        bind (checkVendor os) (\<lambda>consistent.
          if \<not> consistent then
            seq (logPrint ''The vendor directory is not consistent with the go.mod; not using vendored dependencies.'')
                (ret ModMod)
          else ret modMode)
      else ret modMode)"

definition installUnlessVendored ::
    "'w os \<Rightarrow> DependencyInstallerMode \<Rightarrow> ModMode \<Rightarrow> bool \<Rightarrow> ('w, unit) prog" where
  "installUnlessVendored os depMode modMode shouldInstallDependencies =
     (if shouldInstallDependencies then
        (if modMode = ModVendor then
           logPrint ''Skipping dependency installation because a Go vendor directory was found.''
         else installDependencies os depMode)
      else ret ())"

definition buildAndExtract :: "'w os \<Rightarrow> DependencyInstallerMode \<Rightarrow> ModMode \<Rightarrow> ('w, unit) prog" where
  "buildAndExtract os depMode modMode =
     bind (utilGetenv ''CODEQL_EXTRACTOR_GO_BUILD_COMMAND'' [''LGTM_INDEX_BUILD_COMMAND'']) (\<lambda>inst.
     bind (if inst = [] then buildWithoutCustomCommands os modMode
           else seq (buildWithCustomCommands os inst) (ret False)) (\<lambda>shouldInstallDependencies.
     bind (vendorRecheck os modMode) (\<lambda>modMode.
     seq (installUnlessVendored os depMode modMode shouldInstallDependencies)
         (extract os depMode modMode))))"

text \<open>
  The whole function. The middle part is the relocation, under \<^verbatim>\<open>inLGTM && needGopath\<close>;
  its two \<^verbatim>\<open>defer\<close> statements cover the rest of the function body.
\<close>

definition installDependenciesAndBuild :: "'w os \<Rightarrow> ('w, unit) prog" where
  "installDependenciesAndBuild os =
     bind (decideRun os) (\<lambda>d.
       if inLGTMOf d \<and> needGopathOf d then
         bind (moveToTemporaryGopath os (srcdirOf d) (importpathOf d)) (\<lambda>paths.
           deferring (restoreRepoLayout os (newdir paths) (files paths) (filepathBase (scratch paths)) (srcdirOf d))
             (bind (createPathTransformerFile os (newdir paths)) (\<lambda>pt.
                deferring (command0 (Remove os pt))
                  (seq (writePathTransformerFile os pt (realSrc paths) (root paths) (newdir paths))
                  (seq (setGopath (root paths))
                       (buildAndExtract os (depModeOf d) (modModeOf d)))))))
       else buildAndExtract os (depModeOf d) (modModeOf d))"

subsection \<open>A small world for examples\<close>

text \<open>
  A platform on which every call succeeds, for evaluating the program on concrete inputs:
  the files named in \<open>present\<close> exist, \<^verbatim>\<open>go.mod\<close> has the text \<open>goMod\<close>, the
  installed tool chain answers \<^verbatim>\<open>go version\<close> with \<open>banner\<close>, the build
  without custom commands succeeds when \<open>buildOk\<close> holds, and the extractor ends with
  the error \<open>extraction\<close>, if any. No call looks at the world or changes it.
\<close>

definition exampleOs ::
    "string list \<Rightarrow> string \<Rightarrow> string \<Rightarrow> bool \<Rightarrow> string option \<Rightarrow> 'w os" where
  "exampleOs present goMod banner buildOk extraction =
     \<lparr>RuntimeVersion = ''go1.20'',
      FileExists = (\<lambda>w f. f \<in> set present),
      DirExists = (\<lambda>w d. False),
      ReadFile = (\<lambda>w f. if f = ''go.mod'' \<and> f \<in> set present then Inr goMod
                          else Inl ''no such file or directory''),
      Stat = (\<lambda>w f. if f \<in> set present then Inr 0 else Inl ''no such file or directory''),
      Getwd = (\<lambda>w. Inr ''/src''),
      Open = (\<lambda>w d. None),
      Readdirnames = (\<lambda>w d. Inr [''main.go'', ''scratch1'']),
      EvalSymlinks = (\<lambda>w p. Inr p),
      GetExtractorPath = (\<lambda>w. Inr ''/opt/go/tools/go-extractor''),
      ImportPathFromRepoURL = (\<lambda>u. Inr []),
      MkdirTemp = (\<lambda>dir pat w. (Inr (dir @ ''/'' @ pat @ ''1''), w)),
      MkdirAll = (\<lambda>p w. (None, w)),
      Rename = (\<lambda>old new w. (None, w)),
      Chdir = (\<lambda>d w. (None, w)),
      CreateTemp = (\<lambda>dir pat w. (Inr (''/tmp/'' @ pat @ ''1''), w)),
      WriteString = (\<lambda>f txt w. (None, w)),
      Close = (\<lambda>f w. (None, w)),
      Remove = (\<lambda>f w. w),
      Chmod = (\<lambda>f w. w),
      CombinedOutput = (\<lambda>args w. ((banner, None), w)),
      RunCmd = (\<lambda>args w. (True, w)),
      Run = (\<lambda>args w. (extraction, w)),
      Autobuild = (\<lambda>w. (buildOk, w)),
      DepErrors = (\<lambda>pkg flags w. (False, w))\<rparr>"

text \<open>The start of a run: the given environment variables, nothing logged yet.\<close>

definition startState :: "'w \<Rightarrow> (string \<times> string) list \<Rightarrow> 'w state" where
  "startState w vars = \<lparr>world = w, env = map_of vars, goVersion = [], trace = []\<rparr>"

subsection \<open>Runs and the events they add\<close>

text \<open>The events a run adds to the trace: those of the state after it, past the old ones.\<close>

definition newEvents :: "'w state \<Rightarrow> 'w state \<Rightarrow> event list" where
  "newEvents s s' = drop (length (trace s)) (trace s')"

text \<open>An event that is not a call from the set \<open>C\<close>.\<close>

definition noCall :: "(call \<Rightarrow> bool) \<Rightarrow> event \<Rightarrow> bool" where
  "noCall C e = (case e of Call c \<Rightarrow> \<not> C c | Log m \<Rightarrow> True | Diagnostic d \<Rightarrow> True)"

text \<open>
  A piece of the program stays within a frame when it only adds events to the trace, none
  of them a call from \<open>C\<close>, and leaves the environment variables in \<open>K\<close> as they are.
\<close>

definition frame :: "(call \<Rightarrow> bool) \<Rightarrow> (string \<Rightarrow> bool) \<Rightarrow> ('w, 'a) prog \<Rightarrow> bool" where
  "frame C K m =
     (\<forall>s r s'. m s = (r, s') \<longrightarrow>
        (\<exists>evs. trace s' = trace s @ evs \<and> list_all (noCall C) evs)
        \<and> (\<forall>k. K k \<longrightarrow> env s' k = env s k))"

text \<open>The calls that make up the relocation and its undo.\<close>

fun isRelocationCall :: "call \<Rightarrow> bool" where
  "isRelocationCall (CallMoveToTemporaryGopath srcdir importpath) = True"
| "isRelocationCall (CallRestoreRepoLayout fromDir dirEntries scratchDirName toDir) = True"
| "isRelocationCall (CallCreatePathTransformerFile dir) = True"
| "isRelocationCall (CallWritePathTransformerFile pt real rootDir dir) = True"
| "isRelocationCall (CallSetGopath rootDir) = True"
| "isRelocationCall c = False"

fun isRestoreCall :: "call \<Rightarrow> bool" where
  "isRestoreCall (CallRestoreRepoLayout fromDir dirEntries scratchDirName toDir) = True"
| "isRestoreCall c = False"

fun isCreatePathTransformerCall :: "call \<Rightarrow> bool" where
  "isCreatePathTransformerCall (CallCreatePathTransformerFile dir) = True"
| "isCreatePathTransformerCall c = False"

fun isInstallCall :: "call \<Rightarrow> bool" where
  "isInstallCall (CallInstallDependencies depMode) = True"
| "isInstallCall c = False"

fun isVendoredExtractCall :: "call \<Rightarrow> bool" where
  "isVendoredExtractCall (CallExtract depMode modMode) = (modMode = ModVendor)"
| "isVendoredExtractCall c = False"

definition isFatal :: "abort + 'a \<Rightarrow> bool" where
  "isFatal r = (case r of Inl (Fatal msg) \<Rightarrow> True | Inl (PanicIndexOutOfRange i n) \<Rightarrow> False | Inr x \<Rightarrow> False)"

text \<open>The calls from the set \<open>C\<close> among some events, and the diagnostics among them.\<close>

fun callsIn :: "(call \<Rightarrow> bool) \<Rightarrow> event list \<Rightarrow> call list" where
  "callsIn C [] = []"
| "callsIn C (Call c # es) = (if C c then c # callsIn C es else callsIn C es)"
| "callsIn C (Log m # es) = callsIn C es"
| "callsIn C (Diagnostic d # es) = callsIn C es"

fun diagnosticsIn :: "event list \<Rightarrow> diagnostic list" where
  "diagnosticsIn [] = []"
| "diagnosticsIn (Diagnostic d # es) = d # diagnosticsIn es"
| "diagnosticsIn (Log m # es) = diagnosticsIn es"
| "diagnosticsIn (Call c # es) = diagnosticsIn es"

definition restoreOrCreate :: "call \<Rightarrow> bool" where
  "restoreOrCreate c = (isRestoreCall c \<or> isCreatePathTransformerCall c)"

definition installOrVendored :: "call \<Rightarrow> bool" where
  "installOrVendored c = (isInstallCall c \<or> isVendoredExtractCall c)"

text \<open>The environment variables that the relocation reads or writes.\<close>

definition relocKeys :: "string \<Rightarrow> bool" where
  "relocKeys k = (k = ''LGTM_SRC'' \<or> k = ''LGTM_INDEX_NEED_GOPATH'' \<or> k = ''GOPATH'')"

text \<open>
  A piece of the program of which no run adds both a call from \<open>A\<close> and a call from
  \<open>B\<close> to the trace.
\<close>

definition eitherFree :: "(call \<Rightarrow> bool) \<Rightarrow> (call \<Rightarrow> bool) \<Rightarrow> ('w, 'a) prog \<Rightarrow> bool" where
  "eitherFree A B m =
     (\<forall>s r s'. m s = (r, s') \<longrightarrow>
        (\<exists>evs. trace s' = trace s @ evs \<and> (callsIn A evs = [] \<or> callsIn B evs = [])))"

section \<open>Properties\<close>

subsection \<open>Versions: what a valid version string looks like\<close>

lemma parseInt_split:
  assumes "parseInt v = Some (t, r)"
  shows "v = t @ r"
proof (cases v)
  case Nil
  with assms show ?thesis by (simp add: parseInt_def)
next
  case (Cons c cs)
  have "cs = takeWhile isDigit cs @ dropWhile isDigit cs" by simp
  moreover from assms Cons have "t = c # takeWhile isDigit cs" and "r = dropWhile isDigit cs"
    by (auto simp: parseInt_def Let_def split: if_splits)
  ultimately show ?thesis using Cons by simp
qed

lemma parseTail_keeps:
  assumes "parseTail p v = Some q"
  shows "major q = major p \<and> minor q = minor p \<and> patch q = patch p"
  using assms
  by (auto simp: parseTail_def split: if_splits option.splits prod.splits)

lemma parse_prefix:
  assumes "parse v = Some pv"
  shows "\<exists>r. v = CHR ''v'' # major pv @ r"
proof (cases v)
  case Nil
  with assms show ?thesis by (simp add: parse_def)
next
  case (Cons c v0)
  with assms have c: "c = CHR ''v''"
    by (auto simp: parse_def split: if_splits)
  from assms Cons c obtain mj v1 where pi: "parseInt v0 = Some (mj, v1)"
    by (auto simp: parse_def split: option.splits)
  have v0: "v0 = mj @ v1" using pi by (rule parseInt_split)
  have "major pv = mj"
    using assms Cons c pi
    by (auto simp: parse_def emptyParsed_def split: if_splits option.splits dest!: parseTail_keeps)
  with Cons c v0 show ?thesis by auto
qed

text \<open>
  Both branches of \<^verbatim>\<open>MajorMinor\<close> give the same string: the \<^verbatim>\<open>v\<close>, the major
  number, a dot and the minor number (\<^verbatim>\<open>0\<close> for a version without one).
\<close>

lemma semverMajorMinor_valid:
  assumes "parse v = Some pv"
  shows "semverMajorMinor v = CHR ''v'' # major pv @ ''.'' @ minor pv"
proof -
  from parse_prefix [OF assms] obtain r where v: "v = CHR ''v'' # major pv @ r" ..
  let ?i = "1 + length (major pv)"
  let ?j = "?i + 1 + length (minor pv)"
  have ti: "take ?i v = CHR ''v'' # major pv"
    by (subst v) simp
  show ?thesis
  proof (cases "?j \<le> length v \<and> v ! ?i = CHR ''.'' \<and> take (?j - (?i + 1)) (drop (?i + 1) v) = minor pv")
    case True
    then have lt: "?i < length v" by simp
    have "take ?j v = take ?i v @ take (?j - ?i) (drop ?i v)"
      using take_add [of ?i "1 + length (minor pv)" v] by (simp add: ac_simps)
    also have "drop ?i v = v ! ?i # drop (?i + 1) v"
      using lt by (metis Cons_nth_drop_Suc Suc_eq_plus1)
    finally have "take ?j v = take ?i v @ [v ! ?i] @ take (?j - (?i + 1)) (drop (?i + 1) v)"
      by simp
    with True ti have "take ?j v = CHR ''v'' # major pv @ ''.'' @ minor pv"
      by simp
    with True assms show ?thesis
      by (simp add: semverMajorMinor_def Let_def)
  next
    case False
    with assms ti show ?thesis
      by (auto simp: semverMajorMinor_def Let_def)
  qed
qed

lemma outsideSupportedRange_empty: "outsideSupportedRange []"
  by code_simp

lemma parse_1_20_1:
  "parse ''v1.20.1'' =
     Some \<lparr>major = ''1'', minor = ''20'', patch = ''1'', short = [], prerelease = [], build = []\<rparr>"
  by code_simp

lemma parse_1_20_0:
  "parse ''v1.20.0'' =
     Some \<lparr>major = ''1'', minor = ''20'', patch = ''0'', short = [], prerelease = [], build = []\<rparr>"
  by code_simp

lemma in_range_1_20: "\<not> outsideSupportedRange ''1.20''"
  by code_simp

lemma in_range_1_20_0: "\<not> outsideSupportedRange ''1.20.0''"
  by code_simp

lemma in_range_1_20_1: "\<not> outsideSupportedRange ''1.20.1''"
  by code_simp

lemma out_of_range_1_21_0: "outsideSupportedRange ''1.21.0''"
  by code_simp

lemma in_range_1_15: "\<not> outsideSupportedRange ''1.15''"
  by code_simp

lemma in_range_1_14_2: "\<not> outsideSupportedRange ''1.14.2''"
  by code_simp

lemma compare_1_15_1_14_2: "semverCompare ''v1.15'' ''v1.14.2'' = 1"
  by code_simp

subsection \<open>The range check looks at the major and the minor number only\<close>

lemma semverMajorMinor_invalid:
  "parse v = None \<Longrightarrow> semverMajorMinor v = []"
  by (simp add: semverMajorMinor_def)

lemma parse_empty: "parse [] = None"
  by (simp add: parse_def)

lemma parse_min: "parse (''v'' @ minGoVersion) \<noteq> None"
  by code_simp

lemma parse_1_20_rc1: "parse (''v'' @ ''1.20rc1'') = None"
  by code_simp

lemma parse_1_20_01: "parse (''v'' @ ''1.20.01'') = None"
  by code_simp

lemma out_of_range_1_20_rc1: "outsideSupportedRange ''1.20rc1''"
  by code_simp

lemma out_of_range_1_20_01: "outsideSupportedRange ''1.20.01''"
  by code_simp

text \<open>
  Claim C4, as the code has it. \<^verbatim>\<open>outsideSupportedRange\<close> answers from
  \<^verbatim>\<open>semver.MajorMinor\<close> of the version alone. Every version string falls under
  one of two cases. A string that \<^verbatim>\<open>semver\<close> does not accept (after the
  \<^verbatim>\<open>v\<close> is put in front) has no major.minor part: \<^verbatim>\<open>MajorMinor\<close> gives the
  empty string for it, and it is out of range, whatever number it starts with. Two strings
  that \<^verbatim>\<open>semver\<close> accepts and parses to the same major and the same minor number
  get the same answer, whatever their patch numbers, pre-release and build suffixes are.
  In particular \<^verbatim>\<open>1.20.1\<close> and \<^verbatim>\<open>1.20.0\<close> are treated as \<^verbatim>\<open>1.20\<close>,
  which is in range (the maximum is \<^verbatim>\<open>1.20\<close>), and \<^verbatim>\<open>1.21.0\<close> is out of
  range.
\<close>

theorem outsideSupportedRange_major_minor_only:
  "(parse (''v'' @ c) = None \<longrightarrow> outsideSupportedRange c)
   \<and> (parse (''v'' @ a) = Some pa \<and> parse (''v'' @ b) = Some pb
      \<and> major pa = major pb \<and> minor pa = minor pb
      \<longrightarrow> outsideSupportedRange a = outsideSupportedRange b)
   \<and> outsideSupportedRange ''1.20.1'' = outsideSupportedRange ''1.20''
   \<and> outsideSupportedRange ''1.20.0'' = outsideSupportedRange ''1.20''
   \<and> \<not> outsideSupportedRange ''1.20''
   \<and> outsideSupportedRange ''1.21.0''"
proof -
  have "outsideSupportedRange c" if "parse (''v'' @ c) = None"
  proof -
    from that have "semverMajorMinor (''v'' @ c) = []"
      by (rule semverMajorMinor_invalid)
    moreover have "semverCompare [] (''v'' @ minGoVersion) < 0"
      using parse_min by (auto simp: semverCompare_def parse_empty split: option.splits)
    ultimately show ?thesis
      by (simp add: outsideSupportedRange_def)
  qed
  moreover have "outsideSupportedRange a = outsideSupportedRange b"
    if "parse (''v'' @ a) = Some pa" and "parse (''v'' @ b) = Some pb"
      and "major pa = major pb" and "minor pa = minor pb"
    using that by (simp add: outsideSupportedRange_def semverMajorMinor_valid)
  ultimately show ?thesis
    using in_range_1_20 in_range_1_20_0 in_range_1_20_1 out_of_range_1_21_0 by simp
qed

theorem outsideSupportedRange_major_minor_only_witness:
  "parse (''v'' @ ''1.20rc1'') = None
   \<and> outsideSupportedRange ''1.20rc1''
   \<and> parse (''v'' @ ''1.20.1'') =
     Some \<lparr>major = ''1'', minor = ''20'', patch = ''1'', short = [], prerelease = [], build = []\<rparr>
   \<and> parse (''v'' @ ''1.20.0'') =
     Some \<lparr>major = ''1'', minor = ''20'', patch = ''0'', short = [], prerelease = [], build = []\<rparr>
   \<and> outsideSupportedRange ''1.20.1'' = outsideSupportedRange ''1.20.0''"
  using outsideSupportedRange_major_minor_only
    [of "''1.20rc1''" "''1.20.1''"
        "\<lparr>major = ''1'', minor = ''20'', patch = ''1'', short = [], prerelease = [], build = []\<rparr>"
        "''1.20.0''"
        "\<lparr>major = ''1'', minor = ''20'', patch = ''0'', short = [], prerelease = [], build = []\<rparr>"]
    parse_1_20_1 parse_1_20_0 parse_1_20_rc1
  by simp

text \<open>
  The claim as the specification words it, for every version string, fails on the version
  of a release candidate: \<^verbatim>\<open>1.20rc1\<close> (the toolchain prints
  \<^verbatim>\<open>go1.20rc1\<close>) starts with the same major.minor prefix as \<^verbatim>\<open>1.20\<close>, and
  it is out of range while \<^verbatim>\<open>1.20\<close> is in range. The same holds for
  \<^verbatim>\<open>1.20.01\<close> next to \<^verbatim>\<open>1.20.1\<close>.
\<close>

theorem outsideSupportedRange_release_candidate_counterexample:
  "specMajorMinorPrefix ''1.20rc1'' = specMajorMinorPrefix ''1.20''
   \<and> outsideSupportedRange ''1.20rc1'' \<and> \<not> outsideSupportedRange ''1.20''
   \<and> specMajorMinorPrefix ''1.20.01'' = specMajorMinorPrefix ''1.20.1''
   \<and> outsideSupportedRange ''1.20.01'' \<and> \<not> outsideSupportedRange ''1.20.1''"
  using out_of_range_1_20_rc1 out_of_range_1_20_01 in_range_1_20 in_range_1_20_1
  by (simp add: specMajorMinorPrefix_def isDigit_def byte_def)

subsection \<open>The requirement mode with both versions known\<close>

text \<open>
  Claim C1. When the \<^verbatim>\<open>go.mod\<close> version and the installed version are both found and
  both inside the supported range, \<^verbatim>\<open>getVersionToInstall\<close> asks for a version (a
  non-empty version string) exactly when \<^verbatim>\<open>semver.Compare\<close> puts the
  \<^verbatim>\<open>go.mod\<close> version strictly above the installed one, and the version it asks for is
  then the \<^verbatim>\<open>go.mod\<close> version.
\<close>

theorem getVersionToInstall_both_in_range:
  assumes "goModVersionFound v" and "goEnvVersionFound v"
    and "\<not> outsideSupportedRange (goModVersion v)"
    and "\<not> outsideSupportedRange (goEnvVersion v)"
  shows "(snd (snd (getVersionToInstall v)) \<noteq> []
            \<longleftrightarrow> 0 < semverCompare (''v'' @ goModVersion v) (''v'' @ goEnvVersion v))
         \<and> (snd (snd (getVersionToInstall v)) \<noteq> []
            \<longrightarrow> snd (snd (getVersionToInstall v)) = goModVersion v)"
proof -
  have declared: "goModVersion v \<noteq> []"
    using assms(3) outsideSupportedRange_empty by auto
  have supported: "checkForUnsupportedVersions v = ([], [], [])"
    using assms by (simp add: checkForUnsupportedVersions_def)
  have found: "checkForVersionsNotFound v = ([], [], [])"
    using assms by (simp add: checkForVersionsNotFound_def Let_def)
  have "getVersionToInstall v = compareVersions v"
    by (simp add: getVersionToInstall_def supported found split: prod.splits)
  then show ?thesis
    using declared by (simp add: compareVersions_def Let_def)
qed

theorem getVersionToInstall_both_in_range_witness:
  "\<not> outsideSupportedRange ''1.15'' \<and> \<not> outsideSupportedRange ''1.14.2''
   \<and> 0 < semverCompare ''v1.15'' ''v1.14.2''
   \<and> snd (snd (getVersionToInstall
        \<lparr>goModVersion = ''1.15'', goModVersionFound = True,
         goEnvVersion = ''1.14.2'', goEnvVersionFound = True\<rparr>)) = ''1.15''"
  using getVersionToInstall_both_in_range
    [of "\<lparr>goModVersion = ''1.15'', goModVersionFound = True,
         goEnvVersion = ''1.14.2'', goEnvVersionFound = True\<rparr>"]
    in_range_1_15 in_range_1_14_2 compare_1_15_1_14_2
  by simp

subsection \<open>The version banner: the last line decides\<close>

lemma scan_line:
  "CHR 0x0A \<notin> set xs \<Longrightarrow> length cur + length xs < maxScanTokenSize \<Longrightarrow>
   scanLinesLoop cur (xs @ CHR 0x0A # ys) = dropCR (rev cur @ xs) # scanLinesLoop [] ys"
  by (induction xs arbitrary: cur) auto

lemma scan_last_unterminated:
  "CHR 0x0A \<notin> set xs \<Longrightarrow> length cur + length xs < maxScanTokenSize \<Longrightarrow> rev cur @ xs \<noteq> [] \<Longrightarrow>
   scanLinesLoop cur xs = [dropCR (rev cur @ xs)]"
  by (induction xs arbitrary: cur) auto

text \<open>Whatever stands before a newline only adds lines in front of those after it.\<close>

lemma scan_prefix:
  "length cur + length pre < maxScanTokenSize \<Longrightarrow>
   \<exists>ts. scanLinesLoop cur (pre @ CHR 0x0A # rest) = ts @ scanLinesLoop [] rest"
proof (induction pre arbitrary: cur)
  case Nil
  then show ?case by simp
next
  case (Cons c p)
  show ?case
  proof (cases "c = CHR 0x0A")
    case True
    from Cons.prems have "length ([]::string) + length p < maxScanTokenSize" by simp
    from Cons.IH [OF this] obtain ts
      where "scanLinesLoop [] (p @ CHR 0x0A # rest) = ts @ scanLinesLoop [] rest" ..
    with True show ?thesis by simp
  next
    case False
    from Cons.prems have "length (c # cur) + length p < maxScanTokenSize" by simp
    from Cons.IH [OF this] obtain ts
      where "scanLinesLoop (c # cur) (p @ CHR 0x0A # rest) = ts @ scanLinesLoop [] rest" ..
    with False Cons.prems show ?thesis by simp
  qed
qed

lemma scan_final_line:
  assumes "CHR 0x0A \<notin> set l" and "length l < maxScanTokenSize"
    and "term = [CHR 0x0A] \<or> term = [] \<and> l \<noteq> []"
  shows "scanLinesLoop [] (l @ term) = [dropCR l]"
  using assms scan_line [of l "[]" "[]"] scan_last_unterminated [of l "[]"]
  by auto

lemma scanLines_last:
  assumes "pre = [] \<or> last pre = CHR 0x0A"
    and "CHR 0x0A \<notin> set l"
    and "length pre + length l < maxScanTokenSize"
    and "term = [CHR 0x0A] \<or> term = [] \<and> l \<noteq> []"
  shows "\<exists>ts. scanLines (pre @ l @ term) = ts @ [dropCR l]"
proof -
  have fin: "scanLinesLoop [] (l @ term) = [dropCR l]"
    using assms by (intro scan_final_line) auto
  show ?thesis
  proof (cases "pre = []")
    case True
    with fin show ?thesis by (simp add: scanLines_def)
  next
    case False
    with assms(1) obtain p where p: "pre = p @ [CHR 0x0A]"
      by (metis append_butlast_last_id)
    with assms(3) have "length ([]::string) + length p < maxScanTokenSize" by simp
    from scan_prefix [OF this, of "l @ term"] obtain ts
      where "scanLinesLoop [] (p @ CHR 0x0A # l @ term) = ts @ scanLinesLoop [] (l @ term)" ..
    with fin p show ?thesis by (simp add: scanLines_def)
  qed
qed

lemma fields_of_banner:
  "stringsFields ''go version go1.20 linux/amd64'' = [''go'', ''version'', ''go1.20'', ''linux/amd64'']"
  by code_simp

lemma fields_of_empty: "stringsFields [] = []"
  by code_simp

lemma banner_has_no_cr:
  "dropCR ''go version go1.20 linux/amd64'' = ''go version go1.20 linux/amd64''"
  by code_simp

lemma lines_of_banner_and_blank_line:
  "scanLines (''go version go1.20 linux/amd64'' @ [CHR 0x0A, CHR 0x0A])
     = [''go version go1.20 linux/amd64'', []]"
  by (simp add: scanLines_def maxScanTokenSize_def dropCR_def)

text \<open>
  Fields of a line that is not ASCII: the loop of \<^verbatim>\<open>FieldsFunc\<close> one code point
  at a time. A no-break space (\<^verbatim>\<open>U+00A0\<close>, the bytes \<^verbatim>\<open>C2 A0\<close>) and an em
  space (\<^verbatim>\<open>U+2003\<close>, the bytes \<^verbatim>\<open>E2 80 83\<close>) separate fields; a byte
  \<^verbatim>\<open>A0\<close> on its own and a sequence cut short are no white space and stay in their
  field.
\<close>

lemma fieldsFuncLoop_Nil [simp]:
  "fieldsFuncLoop f cur [] = (if cur = [] then [] else [rev cur])"
  by (simp add: fieldsFuncLoop.simps)

lemma fieldsFuncLoop_Cons:
  "fieldsFuncLoop f cur (c # cs) =
     (case decodeRuneInString (c # cs) of
        (r, n) \<Rightarrow>
          if f r then
            (if cur = [] then fieldsFuncLoop f [] (drop n (c # cs))
             else rev cur # fieldsFuncLoop f [] (drop n (c # cs)))
          else fieldsFuncLoop f (rev (take n (c # cs)) @ cur) (drop n (c # cs)))"
  by (subst fieldsFuncLoop.simps) simp

lemmas fields_defs =
  stringsFields_def isASCII_def stringsFieldsFunc_def fieldsFuncLoop_Cons
  decodeRuneInString_def runeSize_def acceptLo_def acceptHi_def byte_def
  unicodeIsSpace_def runeError_def

lemma decodeRuneInString_examples:
  "decodeRuneInString [CHR 0xC2, CHR 0xA0] = (0xA0, 2)"
  "decodeRuneInString [CHR 0xE2, CHR 0x80, CHR 0xA8] = (0x2028, 3)"
  "decodeRuneInString [CHR 0xF0, CHR 0x9F, CHR 0x98, CHR 0x80] = (0x1F600, 4)"
  "decodeRuneInString [CHR 0xC0, CHR 0xA0] = (runeError, 1)"
  "decodeRuneInString [CHR 0xED, CHR 0xA0, CHR 0x80] = (runeError, 1)"
  "decodeRuneInString [CHR 0xE2, CHR 0x80] = (runeError, 1)"
  by (simp_all add: decodeRuneInString_def runeSize_def acceptLo_def acceptHi_def byte_def)

lemma fields_of_no_break_space_banner:
  "stringsFields (''go version'' @ [CHR 0xC2, CHR 0xA0] @ ''go1.20 linux/amd64'')
     = [''go'', ''version'', ''go1.20'', ''linux/amd64'']"
  by (simp add: fields_defs)

lemma fields_of_stray_bytes:
  "stringsFields (''a'' @ [CHR 0xA0] @ ''b'' @ [CHR 0xE2, CHR 0x80, CHR 0x83] @ ''c d''
                  @ [CHR 0xE3, CHR 0x80])
     = [''a'' @ [CHR 0xA0] @ ''b'', ''c'', ''d'' @ [CHR 0xE3, CHR 0x80]]"
  by (simp add: fields_defs)

text \<open>
  Every text that is not empty ends with a line: it is some lines, each with its newline,
  then a last line \<open>l\<close>, and then a final newline or, when \<open>l\<close> is not empty,
  nothing. The empty text has no line at all.
\<close>

lemma text_ends_with_a_line:
  assumes "data \<noteq> []"
  shows "\<exists>pre l term. data = pre @ l @ term
           \<and> (pre = [] \<or> last pre = CHR 0x0A) \<and> CHR 0x0A \<notin> set l
           \<and> (term = [CHR 0x0A] \<or> term = [] \<and> l \<noteq> [])"
proof -
  define fin where "fin = (if last data = CHR 0x0A then [CHR 0x0A] else [])"
  define body where "body = (if last data = CHR 0x0A then butlast data else data)"
  define l where "l = rev (takeWhile (\<lambda>c. c \<noteq> CHR 0x0A) (rev body))"
  define pre where "pre = rev (dropWhile (\<lambda>c. c \<noteq> CHR 0x0A) (rev body))"
  have data: "data = body @ fin"
    using assms by (simp add: body_def fin_def) (metis append_butlast_last_id)
  have body: "body = pre @ l"
    unfolding pre_def l_def by (simp flip: rev_append)
  have pre: "pre = [] \<or> last pre = CHR 0x0A"
  proof (cases "dropWhile (\<lambda>c. c \<noteq> CHR 0x0A) (rev body)")
    case Nil
    then show ?thesis by (simp add: pre_def)
  next
    case (Cons x xs)
    then have "x = CHR 0x0A"
      using hd_dropWhile [of "\<lambda>c. c \<noteq> CHR 0x0A" "rev body"] by simp
    with Cons show ?thesis by (simp add: pre_def)
  qed
  have l: "CHR 0x0A \<notin> set l"
    unfolding l_def using set_takeWhileD [of "CHR 0x0A" "\<lambda>c. c \<noteq> CHR 0x0A" "rev body"] by auto
  have "l \<noteq> []" if "fin = []"
  proof -
    from that have "last data \<noteq> CHR 0x0A" and "body = data"
      by (auto simp: fin_def body_def split: if_splits)
    with assms have "hd (rev body) \<noteq> CHR 0x0A" and "rev body \<noteq> []"
      by (simp_all add: hd_rev)
    then show ?thesis
      by (cases "rev body") (auto simp: l_def)
  qed
  moreover have "fin = [CHR 0x0A] \<or> fin = []"
    by (simp add: fin_def)
  ultimately have "fin = [CHR 0x0A] \<or> fin = [] \<and> l \<noteq> []"
    by auto
  with data body pre l show ?thesis
    by (intro exI [of _ pre] exI [of _ l] exI [of _ fin]) simp
qed

lemma parseGoVersion_empty_text: "parseGoVersion [] = Inl (PanicIndexOutOfRange 2 0)"
  by (simp add: parseGoVersion_def scanLines_def index_def fields_of_empty)

text \<open>
  Claim C9, as the code has it. \<^verbatim>\<open>parseGoVersion\<close> looks at the last line the
  scanner delivers, empty or not: for a text (shorter than the scanner's buffer of 64 KiB)
  that ends with the line \<open>l\<close>, with or without a final newline, the result is the
  third field of \<open>l\<close> as \<^verbatim>\<open>strings.Fields\<close> splits it (at white space, ASCII
  or Unicode), whatever lines stand before it; it is a run-time panic (index out of range)
  when \<open>l\<close> has fewer than three fields. No line is skipped for being empty.
\<close>

theorem parseGoVersion_last_line:
  assumes "pre = [] \<or> last pre = CHR 0x0A"
    and "CHR 0x0A \<notin> set l"
    and "length pre + length l < maxScanTokenSize"
    and "term = [CHR 0x0A] \<or> term = [] \<and> l \<noteq> []"
  shows "parseGoVersion (pre @ l @ term) =
           (if 2 < length (stringsFields (dropCR l))
            then Inr (stringsFields (dropCR l) ! 2)
            else Inl (PanicIndexOutOfRange 2 (length (stringsFields (dropCR l)))))"
proof -
  from scanLines_last [OF assms(1-4)] obtain ts
    where "scanLines (pre @ l @ term) = ts @ [dropCR l]" ..
  then show ?thesis
    by (simp add: parseGoVersion_def index_def)
qed

theorem parseGoVersion_last_line_witness:
  "parseGoVersion ((''warning: GOPATH set to GOROOT (/usr/lib/go) has no effect'' @ [CHR 0x0A])
      @ ''go version go1.20 linux/amd64'' @ [CHR 0x0A]) = Inr ''go1.20''"
  using parseGoVersion_last_line
      [of "''warning: GOPATH set to GOROOT (/usr/lib/go) has no effect'' @ [CHR 0x0A]"
          "''go version go1.20 linux/amd64''" "[CHR 0x0A]"]
    fields_of_banner banner_has_no_cr
  by (simp add: maxScanTokenSize_def)

text \<open>
  The claim as the specification words it fails on a banner followed by an empty line:
  the last non-empty line holds the version \<^verbatim>\<open>go1.20\<close>, and the parser panics.
\<close>

theorem parseGoVersion_blank_last_line_counterexample:
  "specLastNonEmptyLineVersion (''go version go1.20 linux/amd64'' @ [CHR 0x0A, CHR 0x0A])
     = Some ''go1.20''
   \<and> parseGoVersion (''go version go1.20 linux/amd64'' @ [CHR 0x0A, CHR 0x0A])
     = Inl (PanicIndexOutOfRange 2 0)"
  using lines_of_banner_and_blank_line fields_of_banner fields_of_empty
  by (simp add: specLastNonEmptyLineVersion_def parseGoVersion_def index_def)

text \<open>
  A banner whose fields are separated by a no-break space is read like any other: the
  third field is the version.
\<close>

lemma parseGoVersion_no_break_space_banner:
  "parseGoVersion (''go version'' @ [CHR 0xC2, CHR 0xA0] @ ''go1.20 linux/amd64'' @ [CHR 0x0A])
     = Inr ''go1.20''"
proof -
  have "scanLines (''go version'' @ [CHR 0xC2, CHR 0xA0] @ ''go1.20 linux/amd64'' @ [CHR 0x0A])
          = [''go version'' @ [CHR 0xC2, CHR 0xA0] @ ''go1.20 linux/amd64'']"
    by (simp add: scanLines_def maxScanTokenSize_def dropCR_def)
  then show ?thesis
    using fields_of_no_break_space_banner by (simp add: parseGoVersion_def index_def)
qed

subsection \<open>What a piece of the program leaves alone\<close>

named_theorems frame_intros

lemma noCall_simps [simp]:
  "noCall C (Log m)" "noCall C (Diagnostic d)" "noCall C (Call c) = (\<not> C c)"
  by (simp_all add: noCall_def)

lemma frameI:
  assumes "\<And>s r s'. m s = (r, s') \<Longrightarrow> \<exists>evs. trace s' = trace s @ evs \<and> list_all (noCall C) evs"
    and "\<And>s r s' k. m s = (r, s') \<Longrightarrow> K k \<Longrightarrow> env s' k = env s k"
  shows "frame C K m"
  using assms unfolding frame_def by blast

lemma frameD:
  assumes "frame C K m" and "m s = (r, s')"
  shows "\<exists>evs. trace s' = trace s @ evs \<and> list_all (noCall C) evs" and "\<And>k. K k \<Longrightarrow> env s' k = env s k"
  using assms unfolding frame_def by blast+

lemma frame_ret [frame_intros]: "frame C K (ret x)"
  by (simp add: frame_def ret_def)

lemma frame_raise [frame_intros]: "frame C K (raise e)"
  by (simp add: frame_def raise_def)

lemma frame_liftAbort [frame_intros]: "frame C K (liftAbort r)"
  by (cases r) (simp_all add: liftAbort_def frame_ret frame_raise)

lemma frame_emit_log [frame_intros]: "frame C K (logPrint m)"
  by (simp add: frame_def logPrint_def emit_def)

lemma frame_emit_diag [frame_intros]: "frame C K (emit (Diagnostic d))"
  by (simp add: frame_def emit_def)

lemma frame_emit_call [frame_intros]: "\<not> C c \<Longrightarrow> frame C K (emit (Call c))"
  by (simp add: frame_def emit_def)

lemma frame_logFatal [frame_intros]: "frame C K (logFatal m)"
  by (simp add: frame_def logFatal_def)

lemma frame_query [frame_intros]: "frame C K (query f)"
  by (simp add: frame_def query_def)

lemma frame_command [frame_intros]: "frame C K (command f)"
  by (auto simp: frame_def command_def split: prod.splits)

lemma frame_command0 [frame_intros]: "frame C K (command0 f)"
  by (auto simp: frame_def command0_def)

lemma frame_osGetenv [frame_intros]: "frame C K (osGetenv k)"
  by (simp add: frame_def osGetenv_def)

lemma frame_osLookupEnv [frame_intros]: "frame C K (osLookupEnv k)"
  by (simp add: frame_def osLookupEnv_def)

lemma frame_utilGetenv [frame_intros]: "frame C K (utilGetenv k ks)"
  by (simp add: frame_def utilGetenv_def)

lemma frame_osSetenv [frame_intros]: "\<not> K k \<Longrightarrow> frame C K (osSetenv k v)"
  by (auto simp: frame_def osSetenv_def split: if_splits)

lemma frame_bind [frame_intros]:
  assumes "frame C K m" and "\<And>x. frame C K (f x)"
  shows "frame C K (bind m f)"
proof (rule frameI)
  fix s r s'
  assume run: "bind m f s = (r, s')"
  obtain r1 s1 where m: "m s = (r1, s1)" by (cases "m s")
  from frameD [OF assms(1) m] obtain evs1
    where t1: "trace s1 = trace s @ evs1" "list_all (noCall C) evs1"
      and e1: "\<And>k. K k \<Longrightarrow> env s1 k = env s k" by blast
  show "\<exists>evs. trace s' = trace s @ evs \<and> list_all (noCall C) evs"
  proof (cases r1)
    case (Inl e)
    with run m t1 show ?thesis by (auto simp: bind_def)
  next
    case (Inr x)
    with run m have "f x s1 = (r, s')" by (simp add: bind_def)
    from frameD(1) [OF assms(2) this] obtain evs2
      where "trace s' = trace s1 @ evs2" "list_all (noCall C) evs2" by blast
    with t1 show ?thesis by auto
  qed
  fix k assume "K k"
  show "env s' k = env s k"
  proof (cases r1)
    case (Inl e)
    with run m e1 \<open>K k\<close> show ?thesis by (auto simp: bind_def)
  next
    case (Inr x)
    with run m have "f x s1 = (r, s')" by (simp add: bind_def)
    from frameD(2) [OF assms(2) this \<open>K k\<close>] e1 [OF \<open>K k\<close>] show ?thesis by simp
  qed
qed

lemma frame_seq [frame_intros]: "frame C K m \<Longrightarrow> frame C K n \<Longrightarrow> frame C K (seq m n)"
  by (simp add: seq_def frame_bind)

lemma frame_deferring [frame_intros]:
  assumes "frame C K d" and "frame C K body"
  shows "frame C K (deferring d body)"
proof (rule frameI)
  fix s r s'
  assume run: "deferring d body s = (r, s')"
  obtain r1 s1 where b: "body s = (r1, s1)" by (cases "body s")
  obtain r2 s2 where d: "d s1 = (r2, s2)" by (cases "d s1")
  from frameD [OF assms(2) b] obtain evs1
    where t1: "trace s1 = trace s @ evs1" "list_all (noCall C) evs1"
      and e1: "\<And>k. K k \<Longrightarrow> env s1 k = env s k" by blast
  from frameD [OF assms(1) d] obtain evs2
    where t2: "trace s2 = trace s1 @ evs2" "list_all (noCall C) evs2"
      and e2: "\<And>k. K k \<Longrightarrow> env s2 k = env s1 k" by blast
  from run b d have "s' = s1 \<or> s' = s2"
    by (auto simp: deferring_def split: sum.splits abort.splits)
  then show "\<exists>evs. trace s' = trace s @ evs \<and> list_all (noCall C) evs"
    using t1 t2 by auto
  fix k assume "K k"
  from \<open>s' = s1 \<or> s' = s2\<close> e1 [OF \<open>K k\<close>] e2 [OF \<open>K k\<close>] show "env s' k = env s k" by auto
qed

lemma frame_if [frame_intros]:
  "(c \<Longrightarrow> frame C K a) \<Longrightarrow> (\<not> c \<Longrightarrow> frame C K b) \<Longrightarrow> frame C K (if c then a else b)"
  by simp

lemma frame_case_sum [frame_intros]:
  "(\<And>e. frame C K (f e)) \<Longrightarrow> (\<And>x. frame C K (g x)) \<Longrightarrow> frame C K (case r of Inl e \<Rightarrow> f e | Inr x \<Rightarrow> g x)"
  by (cases r) simp_all

lemma frame_case_option [frame_intros]:
  "frame C K a \<Longrightarrow> (\<And>x. frame C K (g x)) \<Longrightarrow> frame C K (case r of None \<Rightarrow> a | Some x \<Rightarrow> g x)"
  by (cases r) simp_all

lemma frame_case_prod [frame_intros]:
  "(\<And>a b. frame C K (f a b)) \<Longrightarrow> frame C K (case p of (a, b) \<Rightarrow> f a b)"
  by (cases p) simp

lemma frame_case_ModMode [frame_intros]:
  "frame C K a \<Longrightarrow> frame C K b \<Longrightarrow> frame C K c \<Longrightarrow> frame C K d \<Longrightarrow>
   frame C K (case m of ModUnset \<Rightarrow> a | ModReadonly \<Rightarrow> b | ModMod \<Rightarrow> c | ModVendor \<Rightarrow> d)"
  by (cases m) simp_all

lemma frame_let [frame_intros]: "frame C K (f x) \<Longrightarrow> frame C K (let y = x in f y)"
  by simp

text \<open>The functions that call nothing the properties below speak about.\<close>

lemma frame_argsForGoVersion [frame_intros]: "frame C K (argsForGoVersion m v)"
  unfolding argsForGoVersion_def by (intro frame_intros)

lemma frame_getEnvGoVersion [frame_intros]: "frame C K (getEnvGoVersion os)"
proof -
  have inner: "frame C K (bind (command (CombinedOutput os [''go'', ''version''])) (\<lambda>(gover, err).
               case err of
                 Some e \<Rightarrow> logFatal (''Unable to run the go command, is it installed?'' @ [CHR 0x0A] @ ''Error: '' @ e)
               | None \<Rightarrow>
                   bind (liftAbort (parseGoVersion gover)) (\<lambda>v s'. (Inr v, s'\<lparr>goVersion := v\<rparr>))))"
    (is "frame C K ?m")
    by (intro frame_intros) (simp add: frame_def)
  show ?thesis
  proof (rule frameI)
    fix s r s'
    assume "getEnvGoVersion os s = (r, s')"
    then have "(goVersion s = [] \<and> ?m s = (r, s')) \<or> s' = s"
      by (auto simp: getEnvGoVersion_def split: if_splits)
    then show "\<exists>evs. trace s' = trace s @ evs \<and> list_all (noCall C) evs"
      using frameD(1) [OF inner] by auto
    fix k assume "K k"
    from \<open>(goVersion s = [] \<and> ?m s = (r, s')) \<or> s' = s\<close> frameD(2) [OF inner _ \<open>K k\<close>]
    show "env s' k = env s k" by auto
  qed
qed

lemma frame_getEnvGoSemVer [frame_intros]: "frame C K (getEnvGoSemVer os)"
  unfolding getEnvGoSemVer_def by (intro frame_intros)

lemma frame_getImportPath [frame_intros]: "frame C K (getImportPath os)"
  unfolding getImportPath_def by (intro frame_intros)

lemma frame_addVersionToMod [frame_intros]: "frame C K (addVersionToMod os v)"
  unfolding addVersionToMod_def by (intro frame_intros)

lemma frame_checkVendor [frame_intros]: "frame C K (checkVendor os)"
  unfolding checkVendor_def by (intro frame_intros)

lemma frame_getSourceDir [frame_intros]: "frame C K (getSourceDir os)"
  unfolding getSourceDir_def by (intro frame_intros)

lemma frame_getDepMode [frame_intros]: "frame C K (getDepMode os)"
  unfolding getDepMode_def by (intro frame_intros)

lemma frame_tryReadGoDirective [frame_intros]: "frame C K (tryReadGoDirective os d)"
  unfolding tryReadGoDirective_def by (intro frame_intros)

lemma frame_getModMode [frame_intros]: "frame C K (getModMode os d)"
  unfolding getModMode_def by (intro frame_intros)

lemma frame_fixGoVendorIssues [frame_intros]: "frame C K (fixGoVendorIssues os m d b)"
  unfolding fixGoVendorIssues_def by (intro frame_intros)

lemma frame_getNeedGopath [frame_intros]: "frame C K (getNeedGopath d i)"
  unfolding getNeedGopath_def by (intro frame_intros)

lemma frame_tryUpdateGoModAndGoSum [frame_intros]: "frame C K (tryUpdateGoModAndGoSum os m d)"
  unfolding tryUpdateGoModAndGoSum_def by (intro frame_intros)


text \<open>The functions that mark their calls: they stay within a frame that allows the call.\<close>

lemma frame_restoreEntries [frame_intros]: "frame C K (restoreEntries os f es sc t)"
  by (induction es) (auto intro!: frame_intros)

lemma frame_restoreRepoLayout [frame_intros]:
  "\<not> C (CallRestoreRepoLayout f es sc t) \<Longrightarrow> frame C K (restoreRepoLayout os f es sc t)"
  unfolding restoreRepoLayout_def by (intro frame_intros)

lemma frame_moveEntries [frame_intros]: "frame C K (moveEntries os src sc es)"
  by (induction es) (auto intro!: frame_intros)

lemma frame_moveToTemporaryGopath [frame_intros]:
  "\<not> C (CallMoveToTemporaryGopath src ip) \<Longrightarrow> frame C K (moveToTemporaryGopath os src ip)"
  unfolding moveToTemporaryGopath_def by (intro frame_intros)

lemma frame_createPathTransformerFile [frame_intros]:
  "\<not> C (CallCreatePathTransformerFile d) \<Longrightarrow> frame C K (createPathTransformerFile os d)"
  unfolding createPathTransformerFile_def by (intro frame_intros)

lemma frame_writePathTransformerFile [frame_intros]:
  "\<not> C (CallWritePathTransformerFile pt a b d) \<Longrightarrow> \<not> K ''SEMMLE_PATH_TRANSFORMER'' \<Longrightarrow>
   frame C K (writePathTransformerFile os pt a b d)"
  unfolding writePathTransformerFile_def by (intro frame_intros)

lemma frame_setGopath [frame_intros]:
  "\<not> C (CallSetGopath r) \<Longrightarrow> \<not> K ''GOPATH'' \<Longrightarrow> frame C K (setGopath r)"
  unfolding setGopath_def by (intro frame_intros)

lemma frame_buildWithoutCustomCommands [frame_intros]:
  "\<not> C (CallBuildWithoutCustomCommands m) \<Longrightarrow> frame C K (buildWithoutCustomCommands os m)"
  unfolding buildWithoutCustomCommands_def by (intro frame_intros)

lemma frame_buildWithCustomCommands [frame_intros]:
  "\<not> C (CallBuildWithCustomCommands inst) \<Longrightarrow> frame C K (buildWithCustomCommands os inst)"
  unfolding buildWithCustomCommands_def by (intro frame_intros)

lemma frame_installDependencies [frame_intros]:
  "\<not> C (CallInstallDependencies d) \<Longrightarrow> \<not> K ''DEPCACHEDIR'' \<Longrightarrow> \<not> K ''DEPCACHEAGE'' \<Longrightarrow>
   \<not> K ''GO111MODULE'' \<Longrightarrow> frame C K (installDependencies os d)"
  unfolding installDependencies_def by (intro frame_intros)

lemma frame_extract [frame_intros]:
  "\<not> C (CallExtract d m) \<Longrightarrow> frame C K (extract os d m)"
  unfolding extract_def by (intro frame_intros)

lemma frame_decideRun [frame_intros]:
  "\<not> K ''SEMMLE_PATH_TRANSFORMER'' \<Longrightarrow> \<not> K ''GO111MODULE'' \<Longrightarrow> frame C K (decideRun os)"
  unfolding decideRun_def by (intro frame_intros)

lemma frame_vendorRecheck [frame_intros]: "frame C K (vendorRecheck os m)"
  unfolding vendorRecheck_def by (intro frame_intros)

lemma frame_installUnlessVendored [frame_intros]:
  "(m \<noteq> ModVendor \<Longrightarrow> \<not> C (CallInstallDependencies d)) \<Longrightarrow> \<not> K ''DEPCACHEDIR'' \<Longrightarrow> \<not> K ''DEPCACHEAGE'' \<Longrightarrow>
   \<not> K ''GO111MODULE'' \<Longrightarrow> frame C K (installUnlessVendored os d m b)"
  unfolding installUnlessVendored_def by (intro frame_intros)

lemma frame_buildAndExtract [frame_intros]:
  assumes "\<And>m. \<not> C (CallBuildWithoutCustomCommands m)" "\<And>i. \<not> C (CallBuildWithCustomCommands i)"
    "\<And>d. \<not> C (CallInstallDependencies d)" "\<And>d m. \<not> C (CallExtract d m)"
    "\<not> K ''DEPCACHEDIR''" "\<not> K ''DEPCACHEAGE''" "\<not> K ''GO111MODULE''"
  shows "frame C K (buildAndExtract os d m)"
  unfolding buildAndExtract_def using assms by (intro frame_intros) auto


subsection \<open>Results of single steps\<close>

lemma bind_Inr_iff:
  "bind m f s = (Inr y, s') \<longleftrightarrow> (\<exists>x s1. m s = (Inr x, s1) \<and> f x s1 = (Inr y, s'))"
  by (auto simp: bind_def split: prod.splits sum.splits)

lemma seq_Inr_iff:
  "seq m n s = (Inr y, s') \<longleftrightarrow> (\<exists>s1. m s = (Inr (), s1) \<and> n s1 = (Inr y, s'))"
  by (auto simp: seq_def bind_Inr_iff)

lemma decideRun_inLGTM:
  assumes "decideRun os s = (Inr d, s1)"
  shows "inLGTMOf d = (getenvOf (env s1) ''LGTM_SRC'' \<noteq> [] \<or> getenvOf (env s1) ''LGTM_INDEX_NEED_GOPATH'' \<noteq> [])"
  using assms unfolding decideRun_def
  by (auto simp: bind_Inr_iff seq_Inr_iff osGetenv_def ret_def split: prod.splits)

lemma newEvents_append: "trace s' = trace s @ evs \<Longrightarrow> newEvents s s' = evs"
  by (simp add: newEvents_def)


lemma callsIn_append [simp]: "callsIn C (a @ b) = callsIn C a @ callsIn C b"
  by (induction C a rule: callsIn.induct) auto

lemma callsIn_noCall: "list_all (noCall C) evs \<Longrightarrow> callsIn C evs = []"
  by (induction C evs rule: callsIn.induct) auto

subsection \<open>Evaluating runs in the small world\<close>

lemmas prog_defs = ret_def bind_def seq_def emit_def logPrint_def logFatal_def raise_def liftAbort_def
  query_def command_def command0_def osGetenv_def osLookupEnv_def osSetenv_def utilGetenv_def deferring_def

lemmas run_defs = installDependenciesAndBuild_def decideRun_def buildAndExtract_def getEnvGoVersion_def
    getSourceDir_def getenvOf_def getDepMode_def tryReadGoDirective_def getEnvGoSemVer_def stringsHasPrefix_def
    getModMode_def fixGoVendorIssues_def tryUpdateGoModAndGoSum_def getImportPath_def getNeedGopath_def
    moveToTemporaryGopath_def createPathTransformerFile_def writePathTransformerFile_def setGopath_def
    restoreRepoLayout_def buildWithoutCustomCommands_def buildWithCustomCommands_def vendorRecheck_def
    installUnlessVendored_def installDependencies_def extract_def argsForGoVersion_def checkVendor_def
    addVersionToMod_def runtimeGOOS_def fmtStrings_def pathListSeparator_def exampleOs_def startState_def

lemma banner_version: "parseGoVersion ''go version go1.20 linux/amd64\<newline>'' = Inr ''go1.20''"
  by (simp add: parseGoVersion_def scanLines_def maxScanTokenSize_def dropCR_def index_def stringsFields_def
      isASCII_def byte_def asciiSpace_def)

lemma example_paths:
  "filepathJoin [''/src'', ''main.go''] = ''/src/main.go''"
  "filepathJoin [''/src/scratch1'', ''main.go''] = ''/src/scratch1/main.go''"
  "filepathJoin [''/src'', ''root''] = ''/src/root''"
  "filepathJoin [''/src/root'', ''src'', ''github.com/a/b''] = ''/src/root/src/github.com/a/b''"
  "filepathJoin [''/src/root/src/github.com/a/b'', ''main.go''] = ''/src/root/src/github.com/a/b/main.go''"
  "filepathDir ''/src/root/src/github.com/a/b'' = ''/src/root/src/github.com/a''"
  "filepathBase ''/src/scratch1'' = ''scratch1''"
  by code_simp+

lemma example_versions:
  "semverCompare ''v'' ''v1.20'' = -1"
  "semverCompare ''v1.20'' ''v1.20'' = 0"
  "semverCompare ''v1.20'' ''v1.16'' = 1"
  "semverCompare ''v1.19'' ''v1.20'' = -1"
  by code_simp+

lemma example_directive_1_19:
  "firstMatch goDirectiveOfLine (splitOn (CHR 0x0A) ''module example.com/m\<newline>\<newline>go 1.19\<newline>'') = Some ''1.19''"
  by code_simp

lemma example_directive:
  "firstMatch goDirectiveOfLine (splitOn (CHR 0x0A) ''module example.com/m\<newline>\<newline>go 1.20\<newline>'') = Some ''1.20''"
  by code_simp

lemma relocated_run_returns:
  "fst (installDependenciesAndBuild
      (exampleOs [''main.go''] [] ''go version go1.20 linux/amd64\<newline>'' True None)
      (startState () [(''LGTM_SRC'', ''/src''), (''GITHUB_REPOSITORY'', ''a/b'')]))
     = Inr ()
   \<and> callsIn (\<lambda>c. True) (trace (snd (installDependenciesAndBuild
      (exampleOs [''main.go''] [] ''go version go1.20 linux/amd64\<newline>'' True None)
      (startState () [(''LGTM_SRC'', ''/src''), (''GITHUB_REPOSITORY'', ''a/b'')]))))
     = [CallMoveToTemporaryGopath ''/src'' ''github.com/a/b'',
        CallCreatePathTransformerFile ''/src/root/src/github.com/a/b'',
        CallWritePathTransformerFile ''/tmp/path-transformer1'' ''/src'' ''/src/root''
          ''/src/root/src/github.com/a/b'',
        CallSetGopath ''/src/root'',
        CallBuildWithoutCustomCommands ModUnset,
        CallExtract GoGetNoModules ModUnset,
        CallRestoreRepoLayout ''/src/root/src/github.com/a/b'' [''main.go'', ''scratch1''] ''scratch1'' ''/src'']"
  by (simp add: run_defs prog_defs banner_version example_paths example_versions)


subsection \<open>The manifest files decide the installer mode in a fixed order\<close>

text \<open>
  Claim C8. \<^verbatim>\<open>getDepMode\<close> returns, whatever else is in the directory:
  \<^verbatim>\<open>GoGetWithModules\<close> when \<^verbatim>\<open>go.mod\<close> exists; else \<^verbatim>\<open>Dep\<close> when
  \<^verbatim>\<open>Gopkg.toml\<close> exists; else \<^verbatim>\<open>Glide\<close> when \<^verbatim>\<open>glide.yaml\<close> exists; else
  \<^verbatim>\<open>GoGetNoModules\<close>. It never fails. In particular a directory with both a
  \<^verbatim>\<open>go.mod\<close> and a \<^verbatim>\<open>Gopkg.toml\<close> gives \<^verbatim>\<open>GoGetWithModules\<close>.
\<close>

theorem getDepMode_priority:
  "fst (getDepMode os s) =
     Inr (if FileExists os (world s) ''go.mod'' then GoGetWithModules
          else if FileExists os (world s) ''Gopkg.toml'' then Dep
          else if FileExists os (world s) ''glide.yaml'' then Glide
          else GoGetNoModules)"
  by (simp add: getDepMode_def prog_defs)

theorem getDepMode_priority_witness:
  "fst (getDepMode (exampleOs [''go.mod'', ''Gopkg.toml''] [] [] True None) (startState () []))
     = Inr GoGetWithModules"
  using getDepMode_priority [of "exampleOs [''go.mod'', ''Gopkg.toml''] [] [] True None" "startState () []"]
  by (simp add: exampleOs_def startState_def)

subsection \<open>Whether a GOPATH is needed\<close>

text \<open>
  Claim C6. \<^verbatim>\<open>getNeedGopath\<close> with the override \<^verbatim>\<open>LGTM_INDEX_NEED_GOPATH\<close>
  not set (or empty) gives true exactly when the installer mode is not
  \<^verbatim>\<open>GoGetWithModules\<close> and the import path is known (not empty). The override decides
  in place of the installer mode, in both directions: with \<^verbatim>\<open>true\<close> the result is true
  exactly when the import path is known, with \<^verbatim>\<open>false\<close> it is false. Any other
  non-empty value of the override is a fatal error.
\<close>

theorem getNeedGopath_decision:
  "fst (getNeedGopath depMode importpath s) =
     (let override = getenvOf (env s) ''LGTM_INDEX_NEED_GOPATH'' in
      if override = ''true'' then Inr (importpath \<noteq> [])
      else if override = ''false'' then Inr False
      else if override = [] then Inr (depMode \<noteq> GoGetWithModules \<and> importpath \<noteq> [])
      else Inl (Fatal (''Unexpected value for Boolean environment variable LGTM_NEED_GOPATH: ''
                       @ override @ ''.'')))"
  by (simp add: getNeedGopath_def prog_defs Let_def)

theorem getNeedGopath_decision_witness:
  "fst (getNeedGopath GoGetWithModules ''github.com/a/b''
          (startState () [(''LGTM_INDEX_NEED_GOPATH'', ''true'')])) = Inr True
   \<and> fst (getNeedGopath GoGetNoModules ''github.com/a/b''
          (startState () [(''LGTM_INDEX_NEED_GOPATH'', ''false'')])) = Inr False
   \<and> fst (getNeedGopath GoGetNoModules ''github.com/a/b'' (startState () [])) = Inr True
   \<and> fst (getNeedGopath GoGetNoModules ''github.com/a/b''
          (startState () [(''LGTM_INDEX_NEED_GOPATH'', ''yes'')]))
       = Inl (Fatal ''Unexpected value for Boolean environment variable LGTM_NEED_GOPATH: yes.'')"
  using getNeedGopath_decision [of GoGetWithModules "''github.com/a/b''"
      "startState () [(''LGTM_INDEX_NEED_GOPATH'', ''true'')]"]
    getNeedGopath_decision [of GoGetNoModules "''github.com/a/b''"
      "startState () [(''LGTM_INDEX_NEED_GOPATH'', ''false'')]"]
    getNeedGopath_decision [of GoGetNoModules "''github.com/a/b''" "startState () []"]
    getNeedGopath_decision [of GoGetNoModules "''github.com/a/b''"
      "startState () [(''LGTM_INDEX_NEED_GOPATH'', ''yes'')]"]
  by (simp add: startState_def getenvOf_def)

subsection \<open>The relocation happens only in LGTM\<close>

text \<open>
  Claim C10. In the build mode the relocation and the GOPATH set-up run only under
  \<^verbatim>\<open>inLGTM && needGopath\<close>. When neither \<^verbatim>\<open>LGTM_SRC\<close> nor
  \<^verbatim>\<open>LGTM_INDEX_NEED_GOPATH\<close> has a non-empty value at the start of the run, or when
  the need for a GOPATH is computed as false, then whatever the platform does the run calls
  none of \<^verbatim>\<open>moveToTemporaryGopath\<close>, \<^verbatim>\<open>createPathTransformerFile\<close>,
  \<^verbatim>\<open>writePathTransformerFile\<close>, \<^verbatim>\<open>setGopath\<close> and \<^verbatim>\<open>restoreRepoLayout\<close>, and
  it leaves \<^verbatim>\<open>GOPATH\<close> as it was; this holds also where the need for a GOPATH is
  computed as true.
\<close>

theorem relocation_only_in_LGTM:
  assumes run: "installDependenciesAndBuild os s = (r, s')"
    and gate: "(getenvOf (env s) ''LGTM_SRC'' = [] \<and> getenvOf (env s) ''LGTM_INDEX_NEED_GOPATH'' = [])
               \<or> (\<forall>d s1. decideRun os s = (Inr d, s1) \<longrightarrow> \<not> needGopathOf d)"
  shows "list_all (noCall isRelocationCall) (newEvents s s') \<and> env s' ''GOPATH'' = env s ''GOPATH''"
proof -
  have fd: "frame isRelocationCall relocKeys (decideRun os)"
    by (intro frame_intros) (simp_all add: relocKeys_def)
  have fb: "frame isRelocationCall relocKeys (buildAndExtract os dm mm)" for dm mm
    by (intro frame_intros) (simp_all add: relocKeys_def)
  obtain r1 s1 where d: "decideRun os s = (r1, s1)" by (cases "decideRun os s")
  from frameD [OF fd d] obtain evs1
    where t1: "trace s1 = trace s @ evs1" "list_all (noCall isRelocationCall) evs1"
      and e1: "\<And>k. relocKeys k \<Longrightarrow> env s1 k = env s k" by blast
  show ?thesis
  proof (cases r1)
    case (Inl e)
    with run d have "s' = s1" by (simp add: installDependenciesAndBuild_def bind_def)
    with t1 e1 show ?thesis by (simp add: newEvents_append relocKeys_def)
  next
    case (Inr dec)
    have same: "getenvOf (env s1) ''LGTM_SRC'' = getenvOf (env s) ''LGTM_SRC''"
      "getenvOf (env s1) ''LGTM_INDEX_NEED_GOPATH'' = getenvOf (env s) ''LGTM_INDEX_NEED_GOPATH''"
      using e1 by (simp_all add: getenvOf_def relocKeys_def)
    from decideRun_inLGTM [of os s dec s1] d Inr gate same
    have "\<not> (inLGTMOf dec \<and> needGopathOf dec)" by auto
    with run d Inr have "buildAndExtract os (depModeOf dec) (modModeOf dec) s1 = (r, s')"
      by (simp add: installDependenciesAndBuild_def bind_def)
    from frameD [OF fb this] obtain evs2
      where "trace s' = trace s1 @ evs2" "list_all (noCall isRelocationCall) evs2"
        and "\<And>k. relocKeys k \<Longrightarrow> env s' k = env s1 k" by blast
    with t1 e1 show ?thesis by (simp add: newEvents_append relocKeys_def)
  qed
qed

lemma unrelocated_run_needs_gopath:
  "fst (decideRun (exampleOs [''main.go''] [] ''go version go1.20 linux/amd64\<newline>'' True None)
          (startState () [(''GITHUB_REPOSITORY'', ''a/b'')]))
     = Inr \<lparr>srcdirOf = ''/src'', depModeOf = GoGetNoModules, modModeOf = ModUnset,
            importpathOf = ''github.com/a/b'', needGopathOf = True, inLGTMOf = False\<rparr>"
  by (simp add: run_defs prog_defs banner_version example_versions)

theorem relocation_only_in_LGTM_witness:
  "getenvOf (env (startState () [(''GITHUB_REPOSITORY'', ''a/b'')])) ''LGTM_SRC'' = []
   \<and> getenvOf (env (startState () [(''GITHUB_REPOSITORY'', ''a/b'')])) ''LGTM_INDEX_NEED_GOPATH'' = []
   \<and> list_all (noCall isRelocationCall)
        (newEvents (startState () [(''GITHUB_REPOSITORY'', ''a/b'')])
           (snd (installDependenciesAndBuild (exampleOs [''main.go''] [] ''go version go1.20 linux/amd64\<newline>'' True None)
                   (startState () [(''GITHUB_REPOSITORY'', ''a/b'')]))))
   \<and> env (snd (installDependenciesAndBuild (exampleOs [''main.go''] [] ''go version go1.20 linux/amd64\<newline>'' True None)
                   (startState () [(''GITHUB_REPOSITORY'', ''a/b'')]))) ''GOPATH''
       = env (startState () [(''GITHUB_REPOSITORY'', ''a/b'')]) ''GOPATH''"
  using relocation_only_in_LGTM
    [of "exampleOs [''main.go''] [] ''go version go1.20 linux/amd64\<newline>'' True None"
        "startState () [(''GITHUB_REPOSITORY'', ''a/b'')]"
        "fst (installDependenciesAndBuild (exampleOs [''main.go''] [] ''go version go1.20 linux/amd64\<newline>'' True None)
                   (startState () [(''GITHUB_REPOSITORY'', ''a/b'')]))"
        "snd (installDependenciesAndBuild (exampleOs [''main.go''] [] ''go version go1.20 linux/amd64\<newline>'' True None)
                   (startState () [(''GITHUB_REPOSITORY'', ''a/b'')]))"]
  by (simp add: startState_def getenvOf_def)

subsection \<open>The undo runs once, unless the run ends in a fatal error\<close>

lemma noCall_restoreOrCreate:
  "list_all (noCall restoreOrCreate) evs \<Longrightarrow>
   callsIn isRestoreCall evs = [] \<and> callsIn isCreatePathTransformerCall evs = []"
proof -
  assume "list_all (noCall restoreOrCreate) evs"
  then have "list_all (noCall isRestoreCall) evs \<and> list_all (noCall isCreatePathTransformerCall) evs"
    by (induction evs) (auto simp: noCall_def restoreOrCreate_def split: event.splits)
  then show ?thesis by (simp add: callsIn_noCall)
qed

text \<open>\<^verbatim>\<open>restoreRepoLayout\<close> always returns, and its call is marked once.\<close>

lemma restoreEntries_returns: "fst (restoreEntries os f es sc t s) = Inr ()"
proof (induction es arbitrary: s)
  case Nil
  show ?case by (simp add: ret_def)
next
  case (Cons e es)
  show ?case
    using Cons.IH
    by (auto simp: seq_def bind_def ret_def logPrint_def emit_def command_def
        split: prod.splits sum.splits option.splits)
qed

lemma restoreRepoLayout_run:
  assumes "restoreRepoLayout os f es sc t s = (r, s')"
  shows "r = Inr () \<and> (\<exists>evs. trace s' = trace s @ evs \<and> length (callsIn isRestoreCall evs) = 1
           \<and> callsIn isCreatePathTransformerCall evs = [])"
proof -
  let ?s0 = "s\<lparr>trace := trace s @ [Call (CallRestoreRepoLayout f es sc t)]\<rparr>"
  from assms have run: "restoreEntries os f es sc t ?s0 = (r, s')"
    by (simp add: restoreRepoLayout_def seq_def bind_def emit_def)
  have "frame restoreOrCreate (\<lambda>k. False) (restoreEntries os f es sc t)"
    by (rule frame_restoreEntries)
  from frameD(1) [OF this run] obtain evs
    where "trace s' = trace ?s0 @ evs" "list_all (noCall restoreOrCreate) evs" by blast
  moreover from run restoreEntries_returns [of os f es sc t ?s0] have "r = Inr ()" by simp
  ultimately show ?thesis
    using noCall_restoreOrCreate [of evs] by simp
qed

lemma createPathTransformerFile_run:
  assumes "createPathTransformerFile os d s = (r, s')"
  shows "\<exists>evs. trace s' = trace s @ evs \<and> callsIn isRestoreCall evs = []
           \<and> callsIn isCreatePathTransformerCall evs \<noteq> []"
proof -
  let ?s0 = "s\<lparr>trace := trace s @ [Call (CallCreatePathTransformerFile d)]\<rparr>"
  let ?rest = "bind (command (Chdir os d)) (\<lambda>err.
        case err of
          Some e \<Rightarrow> logFatal (''Failed to chdir into '' @ d @ '': '' @ e)
        | None \<Rightarrow>
            bind (command (CreateTemp os [] ''path-transformer'')) (\<lambda>created.
              case created of
                Inl e \<Rightarrow> logFatal (''Unable to create path transformer file: '' @ e @ ''.'')
              | Inr pt \<Rightarrow> ret pt))"
  from assms have run: "?rest ?s0 = (r, s')"
    by (simp add: createPathTransformerFile_def seq_def bind_def emit_def)
  have "frame restoreOrCreate (\<lambda>k. False) ?rest"
    by (intro frame_intros)
  from frameD(1) [OF this run] obtain evs
    where "trace s' = trace ?s0 @ evs" "list_all (noCall restoreOrCreate) evs" by blast
  then show ?thesis
    using noCall_restoreOrCreate [of evs] by simp
qed

text \<open>The rest of the function body after the first \<^verbatim>\<open>defer\<close>.\<close>

lemma relocated_body_run:
  assumes "bind (createPathTransformerFile os nd) (\<lambda>pt.
                deferring (command0 (Remove os pt))
                  (seq (writePathTransformerFile os pt rs rt nd)
                  (seq (setGopath rt)
                       (buildAndExtract os dm mm)))) s = (r, s')"
  shows "\<exists>evs. trace s' = trace s @ evs \<and> callsIn isRestoreCall evs = []
           \<and> callsIn isCreatePathTransformerCall evs \<noteq> []"
proof -
  obtain r1 s1 where c: "createPathTransformerFile os nd s = (r1, s1)"
    by (cases "createPathTransformerFile os nd s")
  from createPathTransformerFile_run [OF c] obtain evs1
    where t1: "trace s1 = trace s @ evs1" "callsIn isRestoreCall evs1 = []"
      "callsIn isCreatePathTransformerCall evs1 \<noteq> []" by blast
  show ?thesis
  proof (cases r1)
    case (Inl e)
    with assms c have "s' = s1" by (simp add: bind_def)
    with t1 show ?thesis by auto
  next
    case (Inr pt)
    let ?k = "deferring (command0 (Remove os pt))
                  (seq (writePathTransformerFile os pt rs rt nd)
                  (seq (setGopath rt)
                       (buildAndExtract os dm mm)))"
    from assms c Inr have k: "?k s1 = (r, s')" by (simp add: bind_def)
    have "frame isRestoreCall (\<lambda>k. False) ?k"
      by (intro frame_intros) simp_all
    from frameD(1) [OF this k] obtain evs2
      where "trace s' = trace s1 @ evs2" "list_all (noCall isRestoreCall) evs2" by blast
    with t1 show ?thesis by (auto simp: callsIn_noCall)
  qed
qed


text \<open>
  Claim C3, as the code has it. \<^verbatim>\<open>restoreRepoLayout\<close> is deferred as soon as
  \<^verbatim>\<open>moveToTemporaryGopath\<close> has returned (the next call is that of
  \<^verbatim>\<open>createPathTransformerFile\<close>). Whatever the platform does, a run calls
  \<^verbatim>\<open>restoreRepoLayout\<close> exactly once when the relocation was made and the run does not
  end in \<^verbatim>\<open>log.Fatalf\<close>, that is when \<^verbatim>\<open>installDependenciesAndBuild\<close> returns
  (or panics); it does not call it at all when there was no relocation, or when a later
  step (writing the path transformer file, setting GOPATH, the build, the extraction) ends
  the process with \<^verbatim>\<open>log.Fatalf\<close>, which exits without running deferred calls.
\<close>

theorem restoreRepoLayout_once_unless_fatal:
  assumes run: "installDependenciesAndBuild os s = (r, s')"
  shows "length (callsIn isRestoreCall (newEvents s s')) =
           (if callsIn isCreatePathTransformerCall (newEvents s s') \<noteq> [] \<and> \<not> isFatal r then 1 else 0)"
proof -
  have fd: "frame restoreOrCreate (\<lambda>k. False) (decideRun os)"
    by (intro frame_intros) simp_all
  have fb: "frame restoreOrCreate (\<lambda>k. False) (buildAndExtract os dm mm)" for dm mm
    by (intro frame_intros) (simp_all add: restoreOrCreate_def)
  have fm: "frame restoreOrCreate (\<lambda>k. False) (moveToTemporaryGopath os a b)" for a b
    by (intro frame_intros) (simp_all add: restoreOrCreate_def)
  obtain r1 s1 where d: "decideRun os s = (r1, s1)" by (cases "decideRun os s")
  from frameD(1) [OF fd d] obtain evs1
    where t1: "trace s1 = trace s @ evs1" and n1: "list_all (noCall restoreOrCreate) evs1" by blast
  note z1 = noCall_restoreOrCreate [OF n1]
  show ?thesis
  proof (cases r1)
    case (Inl e)
    with run d have "s' = s1" by (simp add: installDependenciesAndBuild_def bind_def)
    with t1 z1 show ?thesis by (simp add: newEvents_append)
  next
    case (Inr dec)
    show ?thesis
    proof (cases "inLGTMOf dec \<and> needGopathOf dec")
      case False
      with run d Inr have "buildAndExtract os (depModeOf dec) (modModeOf dec) s1 = (r, s')"
        by (simp add: installDependenciesAndBuild_def bind_def)
      from frameD(1) [OF fb this] obtain evs2
        where "trace s' = trace s1 @ evs2" and "list_all (noCall restoreOrCreate) evs2" by blast
      with t1 z1 noCall_restoreOrCreate [of evs2] show ?thesis by (simp add: newEvents_append)
    next
      case True
      obtain r2 s2 where m: "moveToTemporaryGopath os (srcdirOf dec) (importpathOf dec) s1 = (r2, s2)"
        by (cases "moveToTemporaryGopath os (srcdirOf dec) (importpathOf dec) s1")
      from frameD(1) [OF fm m] obtain evs2
        where t2: "trace s2 = trace s1 @ evs2" and n2: "list_all (noCall restoreOrCreate) evs2" by blast
      note z2 = noCall_restoreOrCreate [OF n2]
      show ?thesis
      proof (cases r2)
        case (Inl e)
        with run d Inr True m have "s' = s2"
          by (simp add: installDependenciesAndBuild_def bind_def)
        with t1 t2 z1 z2 show ?thesis by (simp add: newEvents_append)
      next
        case paths: (Inr paths)
        let ?body = "bind (createPathTransformerFile os (newdir paths)) (\<lambda>pt.
                deferring (command0 (Remove os pt))
                  (seq (writePathTransformerFile os pt (realSrc paths) (root paths) (newdir paths))
                  (seq (setGopath (root paths))
                       (buildAndExtract os (depModeOf dec) (modModeOf dec)))))"
        let ?undo = "restoreRepoLayout os (newdir paths) (files paths) (filepathBase (scratch paths)) (srcdirOf dec)"
        from run d Inr True m paths have def: "deferring ?undo ?body s2 = (r, s')"
          by (simp add: installDependenciesAndBuild_def bind_def)
        obtain rb sb where b: "?body s2 = (rb, sb)" by (cases "?body s2")
        from relocated_body_run [OF b] obtain evs3
          where t3: "trace sb = trace s2 @ evs3" and z3: "callsIn isRestoreCall evs3 = []"
            "callsIn isCreatePathTransformerCall evs3 \<noteq> []" by blast
        obtain ru su where u: "?undo sb = (ru, su)" by (cases "?undo sb")
        from restoreRepoLayout_run [OF u] obtain evs4
          where ru: "ru = Inr ()" and t4: "trace su = trace sb @ evs4"
            and z4: "length (callsIn isRestoreCall evs4) = 1" by blast
        show ?thesis
        proof (cases "isFatal rb")
          case True
          with def b have "r = rb" "s' = sb"
            by (auto simp: deferring_def isFatal_def split: sum.splits abort.splits)
          with True t1 t2 t3 z1 z2 z3 show ?thesis by (simp add: newEvents_append)
        next
          case False
          with def b u ru have "r = rb" "s' = su"
            by (auto simp: deferring_def isFatal_def split: sum.splits abort.splits)
          with False t1 t2 t3 t4 z1 z2 z3 z4 show ?thesis by (simp add: newEvents_append)
        qed
      qed
    qed
  qed
qed

lemma relocated_run_facts:
  "callsIn isCreatePathTransformerCall
     (newEvents (startState () [(''LGTM_SRC'', ''/src''), (''GITHUB_REPOSITORY'', ''a/b'')])
        (snd (installDependenciesAndBuild (exampleOs [''main.go''] [] ''go version go1.20 linux/amd64\<newline>'' True None)
                (startState () [(''LGTM_SRC'', ''/src''), (''GITHUB_REPOSITORY'', ''a/b'')])))) \<noteq> []
   \<and> \<not> isFatal (fst (installDependenciesAndBuild (exampleOs [''main.go''] [] ''go version go1.20 linux/amd64\<newline>'' True None)
                (startState () [(''LGTM_SRC'', ''/src''), (''GITHUB_REPOSITORY'', ''a/b'')])))"
  by (simp add: run_defs prog_defs banner_version example_paths example_versions newEvents_def isFatal_def)

theorem restoreRepoLayout_once_unless_fatal_witness:
  "length (callsIn isRestoreCall
     (newEvents (startState () [(''LGTM_SRC'', ''/src''), (''GITHUB_REPOSITORY'', ''a/b'')])
        (snd (installDependenciesAndBuild (exampleOs [''main.go''] [] ''go version go1.20 linux/amd64\<newline>'' True None)
                (startState () [(''LGTM_SRC'', ''/src''), (''GITHUB_REPOSITORY'', ''a/b'')]))))) = 1"
  using restoreRepoLayout_once_unless_fatal
    [of "exampleOs [''main.go''] [] ''go version go1.20 linux/amd64\<newline>'' True None"
        "startState () [(''LGTM_SRC'', ''/src''), (''GITHUB_REPOSITORY'', ''a/b'')]"
        "fst (installDependenciesAndBuild (exampleOs [''main.go''] [] ''go version go1.20 linux/amd64\<newline>'' True None)
                (startState () [(''LGTM_SRC'', ''/src''), (''GITHUB_REPOSITORY'', ''a/b'')]))"
        "snd (installDependenciesAndBuild (exampleOs [''main.go''] [] ''go version go1.20 linux/amd64\<newline>'' True None)
                (startState () [(''LGTM_SRC'', ''/src''), (''GITHUB_REPOSITORY'', ''a/b'')]))"]
    relocated_run_facts
  by simp

text \<open>
  The claim as the specification words it (the undo runs exactly once on every path once
  the relocation is made, also when a later phase fails fatally) fails on a legacy project
  in LGTM whose extraction fails: the relocation is made, the extractor ends with an error,
  the run ends in \<^verbatim>\<open>log.Fatalf\<close>, and \<^verbatim>\<open>restoreRepoLayout\<close> is not among the
  calls of the run.
\<close>

theorem restoreRepoLayout_not_run_after_fatal_counterexample:
  "fst (installDependenciesAndBuild
      (exampleOs [''main.go''] [] ''go version go1.20 linux/amd64\<newline>'' True (Some ''exit status 1''))
      (startState () [(''LGTM_SRC'', ''/src''), (''GITHUB_REPOSITORY'', ''a/b'')]))
     = Inl (Fatal ''Extraction failed: exit status 1'')
   \<and> callsIn (\<lambda>c. True) (trace (snd (installDependenciesAndBuild
      (exampleOs [''main.go''] [] ''go version go1.20 linux/amd64\<newline>'' True (Some ''exit status 1''))
      (startState () [(''LGTM_SRC'', ''/src''), (''GITHUB_REPOSITORY'', ''a/b'')]))))
     = [CallMoveToTemporaryGopath ''/src'' ''github.com/a/b'',
        CallCreatePathTransformerFile ''/src/root/src/github.com/a/b'',
        CallWritePathTransformerFile ''/tmp/path-transformer1'' ''/src'' ''/src/root''
          ''/src/root/src/github.com/a/b'',
        CallSetGopath ''/src/root'',
        CallBuildWithoutCustomCommands ModUnset,
        CallExtract GoGetNoModules ModUnset]"
  by (simp add: run_defs prog_defs banner_version example_paths example_versions)


subsection \<open>The early diagnostic of the build mode\<close>

text \<open>
  Claim C5 says that the diagnostic for a newer Go version is emitted only when the version
  of \<^verbatim>\<open>go.mod\<close> is strictly newer than the installed one. The code compares with
  \<^verbatim>\<open>>= 0\<close>: with \<^verbatim>\<open>go 1.20\<close> in \<^verbatim>\<open>go.mod\<close> and an installed \<^verbatim>\<open>go1.20\<close>
  the two versions are equal under \<^verbatim>\<open>semver.Compare\<close>, and the run emits the
  diagnostic.
\<close>

theorem newer_version_diagnostic_on_equal_versions:
  "semverCompare (''v'' @ ''1.20'') ''v1.20'' = 0
   \<and> diagnosticsIn (trace (snd (installDependenciesAndBuild
        (exampleOs [''go.mod''] ''module example.com/m\<newline>\<newline>go 1.20\<newline>''
           ''go version go1.20 linux/amd64\<newline>'' True None)
        (startState () []))))
     = [EmitNewerGoVersionNeeded]"
  by (simp add: run_defs prog_defs banner_version example_paths example_versions example_directive)

subsection \<open>No installation of dependencies in vendor mode\<close>

lemma noCall_installOrVendored:
  assumes "list_all (noCall installOrVendored) evs"
  shows "callsIn isInstallCall evs = [] \<and> callsIn isVendoredExtractCall evs = []"
proof -
  from assms have "list_all (noCall isInstallCall) evs \<and> list_all (noCall isVendoredExtractCall) evs"
    by (induction evs) (auto simp: noCall_def installOrVendored_def split: event.splits)
  then show ?thesis by (simp add: callsIn_noCall)
qed

lemma eitherFree_frame:
  assumes "frame installOrVendored K m"
  shows "eitherFree isInstallCall isVendoredExtractCall m"
  unfolding eitherFree_def
proof (intro allI impI)
  fix s r s' assume "m s = (r, s')"
  from frameD(1) [OF assms this] obtain evs
    where "trace s' = trace s @ evs" "list_all (noCall installOrVendored) evs" by blast
  then show "\<exists>evs. trace s' = trace s @ evs \<and> (callsIn isInstallCall evs = [] \<or> callsIn isVendoredExtractCall evs = [])"
    using noCall_installOrVendored by blast
qed

lemma eitherFree_bind:
  assumes "frame installOrVendored K m" and "\<And>x. eitherFree isInstallCall isVendoredExtractCall (f x)"
  shows "eitherFree isInstallCall isVendoredExtractCall (bind m f)"
  unfolding eitherFree_def
proof (intro allI impI)
  fix s r s' assume run: "bind m f s = (r, s')"
  obtain r1 s1 where m: "m s = (r1, s1)" by (cases "m s")
  from frameD(1) [OF assms(1) m] obtain evs1
    where t1: "trace s1 = trace s @ evs1" and "list_all (noCall installOrVendored) evs1" by blast
  then have z1: "callsIn isInstallCall evs1 = []" "callsIn isVendoredExtractCall evs1 = []"
    using noCall_installOrVendored by blast+
  show "\<exists>evs. trace s' = trace s @ evs \<and> (callsIn isInstallCall evs = [] \<or> callsIn isVendoredExtractCall evs = [])"
  proof (cases r1)
    case (Inl e)
    with run m have "s' = s1" by (simp add: bind_def)
    with t1 z1 show ?thesis by auto
  next
    case (Inr x)
    with run m have "f x s1 = (r, s')" by (simp add: bind_def)
    with assms(2) [of x] obtain evs2
      where "trace s' = trace s1 @ evs2" "callsIn isInstallCall evs2 = [] \<or> callsIn isVendoredExtractCall evs2 = []"
      unfolding eitherFree_def by blast
    with t1 z1 show ?thesis by auto
  qed
qed

lemma eitherFree_seq:
  assumes "frame installOrVendored K m" and "eitherFree isInstallCall isVendoredExtractCall n"
  shows "eitherFree isInstallCall isVendoredExtractCall (seq m n)"
  unfolding seq_def using assms by (intro eitherFree_bind)

lemma eitherFree_deferring:
  assumes "frame installOrVendored K d" and "eitherFree isInstallCall isVendoredExtractCall body"
  shows "eitherFree isInstallCall isVendoredExtractCall (deferring d body)"
  unfolding eitherFree_def
proof (intro allI impI)
  fix s r s' assume run: "deferring d body s = (r, s')"
  obtain r1 s1 where b: "body s = (r1, s1)" by (cases "body s")
  obtain r2 s2 where d: "d s1 = (r2, s2)" by (cases "d s1")
  from assms(2) b obtain evs1
    where t1: "trace s1 = trace s @ evs1"
      and z1: "callsIn isInstallCall evs1 = [] \<or> callsIn isVendoredExtractCall evs1 = []"
    unfolding eitherFree_def by blast
  from frameD(1) [OF assms(1) d] obtain evs2
    where t2: "trace s2 = trace s1 @ evs2" and "list_all (noCall installOrVendored) evs2" by blast
  then have z2: "callsIn isInstallCall evs2 = []" "callsIn isVendoredExtractCall evs2 = []"
    using noCall_installOrVendored by blast+
  from run b d have "s' = s1 \<or> s' = s2"
    by (auto simp: deferring_def split: sum.splits abort.splits)
  with t1 t2 z1 z2
  show "\<exists>evs. trace s' = trace s @ evs \<and> (callsIn isInstallCall evs = [] \<or> callsIn isVendoredExtractCall evs = [])"
    by auto
qed

lemma eitherFree_buildAndExtract:
  "eitherFree isInstallCall isVendoredExtractCall (buildAndExtract os dm mm)"
proof -
  have tail: "eitherFree isInstallCall isVendoredExtractCall
                (seq (installUnlessVendored os dm m' b) (extract os dm m'))" for m' b
  proof (cases "m' = ModVendor")
    case True
    have "frame isInstallCall (\<lambda>k. False) (seq (installUnlessVendored os dm m' b) (extract os dm m'))"
      using True by (intro frame_intros) simp_all
    then show ?thesis
      unfolding eitherFree_def by (meson callsIn_noCall frameD(1))
  next
    case False
    have "frame isVendoredExtractCall (\<lambda>k. False) (seq (installUnlessVendored os dm m' b) (extract os dm m'))"
      using False by (intro frame_intros) simp_all
    then show ?thesis
      unfolding eitherFree_def by (meson callsIn_noCall frameD(1))
  qed
  show ?thesis
    unfolding buildAndExtract_def
    by (intro eitherFree_bind [where K = "\<lambda>k. False"] tail frame_intros)
      (simp_all add: installOrVendored_def)
qed

lemma eitherFree_run:
  "eitherFree isInstallCall isVendoredExtractCall (installDependenciesAndBuild os)"
  unfolding installDependenciesAndBuild_def
  apply (rule eitherFree_bind [where K = "\<lambda>k. False"])
   apply (intro frame_intros; simp)
  apply (simp only: split: if_split)
  apply (intro conjI impI)
   apply (rule eitherFree_bind [where K = "\<lambda>k. False"])
    apply (intro frame_intros; simp add: installOrVendored_def)
   apply (rule eitherFree_deferring [where K = "\<lambda>k. False"])
    apply (intro frame_intros; simp add: installOrVendored_def)
   apply (rule eitherFree_bind [where K = "\<lambda>k. False"])
    apply (intro frame_intros; simp add: installOrVendored_def)
   apply (rule eitherFree_deferring [where K = "\<lambda>k. False"])
    apply (intro frame_intros; simp add: installOrVendored_def)
   apply (rule eitherFree_seq [where K = "\<lambda>k. False"])
    apply (intro frame_intros; simp add: installOrVendored_def)
   apply (rule eitherFree_seq [where K = "\<lambda>k. False"])
    apply (intro frame_intros; simp add: installOrVendored_def)
   apply (rule eitherFree_buildAndExtract)
  apply (rule eitherFree_buildAndExtract)
  done


text \<open>
  Claim C7. When dependencies should be installed and the mode after the check of the
  vendor directory is \<^verbatim>\<open>ModVendor\<close>, the only thing that happens in place of the
  installation is the log line about skipping it. And whatever the platform does,
  \<^verbatim>\<open>installDependencies\<close> is not called in a run in which the mode after that check
  (the mode that \<^verbatim>\<open>extract\<close> is called with) is \<^verbatim>\<open>ModVendor\<close>: no run has both a
  call of \<^verbatim>\<open>installDependencies\<close> and a call of \<^verbatim>\<open>extract\<close> with
  \<^verbatim>\<open>ModVendor\<close>.
\<close>

theorem installDependencies_not_in_vendor_mode:
  "installUnlessVendored os depMode ModVendor True s =
     (Inr (), s\<lparr>trace := trace s
        @ [Log ''Skipping dependency installation because a Go vendor directory was found.'']\<rparr>)
   \<and> (installDependenciesAndBuild os s = (r, s') \<longrightarrow>
        callsIn isInstallCall (newEvents s s') = [] \<or> callsIn isVendoredExtractCall (newEvents s s') = [])"
proof -
  have "callsIn isInstallCall (newEvents s s') = [] \<or> callsIn isVendoredExtractCall (newEvents s s') = []"
    if "installDependenciesAndBuild os s = (r, s')"
    using eitherFree_run [of os] that unfolding eitherFree_def
    by (metis newEvents_append)
  then show ?thesis
    by (simp add: installUnlessVendored_def logPrint_def emit_def)
qed

lemma vendored_run_calls:
  "callsIn (\<lambda>c. True) (newEvents (startState () [])
     (snd (installDependenciesAndBuild (exampleOs [''go.mod'', ''vendor/modules.txt''] ''module example.com/m\<newline>\<newline>go 1.19\<newline>'' ''go version go1.20 linux/amd64\<newline>'' False None)
             (startState () []))))
     = [CallBuildWithoutCustomCommands ModVendor, CallExtract GoGetWithModules ModVendor]
   \<and> callsIn isVendoredExtractCall (newEvents (startState () [])
     (snd (installDependenciesAndBuild (exampleOs [''go.mod'', ''vendor/modules.txt''] ''module example.com/m\<newline>\<newline>go 1.19\<newline>'' ''go version go1.20 linux/amd64\<newline>'' False None)
             (startState () [])))) \<noteq> []
   \<and> Log ''Skipping dependency installation because a Go vendor directory was found.''
       \<in> set (trace (snd (installDependenciesAndBuild (exampleOs [''go.mod'', ''vendor/modules.txt''] ''module example.com/m\<newline>\<newline>go 1.19\<newline>'' ''go version go1.20 linux/amd64\<newline>'' False None)
             (startState () []))))"
  by (simp add: run_defs prog_defs banner_version example_paths example_versions example_directive_1_19
      newEvents_def)

theorem installDependencies_not_in_vendor_mode_witness:
  "callsIn isInstallCall (newEvents (startState () [])
     (snd (installDependenciesAndBuild (exampleOs [''go.mod'', ''vendor/modules.txt''] ''module example.com/m\<newline>\<newline>go 1.19\<newline>'' ''go version go1.20 linux/amd64\<newline>'' False None)
             (startState () [])))) = []"
  using installDependencies_not_in_vendor_mode
    [of "exampleOs [''go.mod'', ''vendor/modules.txt''] ''module example.com/m\<newline>\<newline>go 1.19\<newline>'' ''go version go1.20 linux/amd64\<newline>'' False None" Dep "startState () []"
        "fst (installDependenciesAndBuild (exampleOs [''go.mod'', ''vendor/modules.txt''] ''module example.com/m\<newline>\<newline>go 1.19\<newline>'' ''go version go1.20 linux/amd64\<newline>'' False None)
             (startState () []))"
        "snd (installDependenciesAndBuild (exampleOs [''go.mod'', ''vendor/modules.txt''] ''module example.com/m\<newline>\<newline>go 1.19\<newline>'' ''go version go1.20 linux/amd64\<newline>'' False None)
             (startState () []))"]
    vendored_run_calls
  by simp

end
